theory Spec2Isabelle
  imports Main "HOL-Library.Word" "HOL-Library.Sublist"
begin

section \<open>The export engine of eaglesync (src/eaglesync/export.go)\<close>

text \<open>
  The theory embeds \<^verbatim>\<open>Library.Export\<close> and \<^verbatim>\<open>Library.copyFile\<close>.
  The destination file store (an \<^verbatim>\<open>afero.Fs\<close>) is an explicit state that every
  operation takes and returns; every call the code makes to a collaborator is also
  appended to a chronological list of calls, so that statements about what happens
  before what, and about what is never called, are statements about that list.
  Errors are values: a Go \<^verbatim>\<open>error\<close> is an \<open>error option\<close>, \<open>None\<close> being \<^verbatim>\<open>nil\<close>.

  The goroutine pool is modelled by running each task when it is submitted, in the
  order the map is ranged over; interleavings of tasks are outside this embedding.
\<close>

subsection \<open>Errors\<close>

datatype error =
    Cause string
  | Wrapped string error
  | Joined "error list"

text \<open>\<^verbatim>\<open>errors.Wrap\<close> of cockroachdb/errors: a prefix around the cause, and
  \<^verbatim>\<open>nil\<close> when the cause is \<^verbatim>\<open>nil\<close>.\<close>

fun errors_Wrap :: "error option \<Rightarrow> string \<Rightarrow> error option" where
  "errors_Wrap None msg = None"
| "errors_Wrap (Some err) msg = Some (Wrapped msg err)"

definition errors_New :: "string \<Rightarrow> error" where
  "errors_New msg = Cause msg"

subsection \<open>Paths (path/filepath with separator /)\<close>

type_synonym path = string

fun splitSep :: "string \<Rightarrow> string list" where
  "splitSep [] = [[]]"
| "splitSep (c # cs) =
     (if c = CHR ''/'' then [] # splitSep cs
      else (case splitSep cs of [] \<Rightarrow> [[c]] | x # xs \<Rightarrow> (c # x) # xs))"

fun joinSep :: "string list \<Rightarrow> string" where
  "joinSep [] = []"
| "joinSep [x] = x"
| "joinSep (x # y # ys) = x @ ''/'' @ joinSep (y # ys)"

text \<open>The loop of \<^verbatim>\<open>filepath.Clean\<close>, element by element: empty and \<^verbatim>\<open>.\<close>
  elements are dropped, \<^verbatim>\<open>..\<close> removes the last real element, is kept in front of
  a path that is not rooted, and is dropped at the root.\<close>

fun cleanElems :: "bool \<Rightarrow> string list \<Rightarrow> string list \<Rightarrow> string list" where
  "cleanElems rooted out [] = out"
| "cleanElems rooted out (el # els) =
     (if el = [] \<or> el = ''.'' then cleanElems rooted out els
      else if el = ''..'' then
        (if out \<noteq> [] \<and> last out \<noteq> ''..'' then cleanElems rooted (butlast out) els
         else if \<not> rooted then cleanElems rooted (out @ [''..'']) els
         else cleanElems rooted out els)
      else cleanElems rooted (out @ [el]) els)"

definition Clean :: "path \<Rightarrow> path" where
  "Clean p =
     (if p = [] then ''.''
      else let rooted = (hd p = CHR ''/'');
               body = joinSep (cleanElems rooted [] (splitSep p))
           in if rooted then CHR ''/'' # body
              else if body = [] then ''.'' else body)"

definition Join :: "string list \<Rightarrow> path" where
  "Join elem =
     (case dropWhile (\<lambda>el. el = []) elem of
        [] \<Rightarrow> []
      | rest \<Rightarrow> Clean (joinSep rest))"

definition Dir :: "path \<Rightarrow> path" where
  "Dir p = Clean (rev (dropWhile (\<lambda>c. c \<noteq> CHR ''/'') (rev p)))"

text \<open>\<open>under d p\<close>: the path \<open>p\<close> is the directory \<open>d\<close> or lies below it.\<close>

definition under :: "path \<Rightarrow> path \<Rightarrow> bool" where
  "under d p =
     (let d' = Clean d
      in p = d' \<or> prefix (if d' = ''/'' then d' else d' @ ''/'') p)"

subsection \<open>Times\<close>

text \<open>A \<^verbatim>\<open>time.Time\<close> read from a file's metadata: seconds since the epoch (an
  \<^verbatim>\<open>int64\<close>) and nanoseconds within the second. Go's \<^verbatim>\<open>!=\<close> on such values is
  the comparison of these fields.\<close>

record Time =
  unixSec :: "64 word"
  nsec :: nat

definition UnixMilli :: "Time \<Rightarrow> 64 word" where
  "UnixMilli t = unixSec t * 1000 + of_nat (nsec t div 1000000)"

record Timespec =
  AccessTime :: Time
  ModTime :: Time

subsection \<open>Data of the library\<close>

record FileInfo =
  Name :: string
  Ext :: string
  IsDeleted :: bool

text \<open>\<^verbatim>\<open>Mtime\<close> is a \<^verbatim>\<open>map[string]int64\<close>; the list is the map in the order
  the \<^verbatim>\<open>range\<close> loop of one run visits it.\<close>

type_synonym Mtime = "(string \<times> 64 word) list"

type_synonym FolderFilter = "FileInfo \<Rightarrow> error + string"

record ExportOption =
  Overwrite :: bool
  Force :: bool
  Bar :: bool
  GroupBySmartFolder :: bool

subsection \<open>The destination store and the calls made\<close>

datatype flag = O_RDWR | O_TRUNC | O_CREATE

datatype call =
    CallRemoveAll path
  | CallParseJson path
  | CallNewFolderFilter
  | CallChangeMax64 "64 word"
  | CallFinish
  | CallGo string
  | CallEvaluate FileInfo
  | CallOpen path
  | CallStatFile path
  | CallMkdirAll path
  | CallOpenFile path "flag list"
  | CallStat path
  | CallCopy path
  | CallChtimes path Time Time

record File =
  content :: "8 word list"
  atime :: Time
  modtime :: Time

record World =
  files :: "path \<rightharpoonup> File"
  dirs :: "path set"
  calls :: "call list"
  barMax :: "64 word"
  barNum :: nat
  barFinished :: bool

definition record_call :: "call \<Rightarrow> World \<Rightarrow> World" where
  "record_call c w = w\<lparr>calls := calls w @ [c]\<rparr>"

text \<open>What the file store itself decides: whether the call made as the \<open>n\<close>-th one
  fails and with what cause, how many bytes a failing copy still writes, and the time
  it stamps on a file it creates, truncates or writes at that moment.\<close>

record Afero =
  fault :: "nat \<Rightarrow> call \<Rightarrow> error option"
  copyFault :: "nat \<Rightarrow> path \<Rightarrow> (nat \<times> error) option"
  now :: "nat \<Rightarrow> Time"

record Library =
  BaseDir :: path
  fs :: Afero

text \<open>The source side, read through the operating system and never written by the
  export: the asset files with their times, and the three documents
  \<^verbatim>\<open>parseJsonFile\<close> decodes. \<^verbatim>\<open>parseJsonFile\<close>, \<^verbatim>\<open>NewFolderFilter\<close> and
  \<^verbatim>\<open>FolderFilter.Evaluate\<close> are declared outside export.go and are parameters here;
  \<open>'l\<close> stands for \<^verbatim>\<open>LibraryInfo\<close>.\<close>

record 'l Os =
  parseMtime :: "path \<Rightarrow> error + Mtime"
  parseLibraryInfo :: "path \<Rightarrow> error + 'l"
  parseFileInfo :: "path \<Rightarrow> error + FileInfo"
  newFolderFilter :: "'l \<Rightarrow> FolderFilter"
  openSrc :: "path \<Rightarrow> error + 8 word list"
  statSrc :: "path \<Rightarrow> error + Timespec"

subsection \<open>Operations of the collaborators\<close>

definition parseJsonFile :: "(path \<Rightarrow> error + 'a) \<Rightarrow> path \<Rightarrow> World \<Rightarrow> (error + 'a) \<times> World" where
  "parseJsonFile decode p w = (decode p, record_call (CallParseJson p) w)"

definition NewFolderFilter :: "'l Os \<Rightarrow> 'l \<Rightarrow> World \<Rightarrow> FolderFilter \<times> World" where
  "NewFolderFilter os libraryMetadata w =
     (newFolderFilter os libraryMetadata, record_call CallNewFolderFilter w)"

definition Evaluate :: "FolderFilter \<Rightarrow> FileInfo \<Rightarrow> World \<Rightarrow> (error + string) \<times> World" where
  "Evaluate filter' fileInfo w = (filter' fileInfo, record_call (CallEvaluate fileInfo) w)"

definition os_Open :: "'l Os \<Rightarrow> path \<Rightarrow> World \<Rightarrow> (error + 8 word list) \<times> World" where
  "os_Open os name w = (openSrc os name, record_call (CallOpen name) w)"

definition times_StatFile :: "'l Os \<Rightarrow> path \<Rightarrow> World \<Rightarrow> (error + Timespec) \<times> World" where
  "times_StatFile os name w = (statSrc os name, record_call (CallStatFile name) w)"

definition ChangeMax64 :: "64 word \<Rightarrow> World \<Rightarrow> World" where
  "ChangeMax64 n w = (record_call (CallChangeMax64 n) w)\<lparr>barMax := n\<rparr>"

definition Finish :: "World \<Rightarrow> World" where
  "Finish w = (record_call CallFinish w)\<lparr>barFinished := True\<rparr>"

text \<open>\<^verbatim>\<open>RemoveAll\<close> removes the path and everything below it; a failing call is
  taken to remove nothing.\<close>

definition RemoveAll :: "Afero \<Rightarrow> path \<Rightarrow> World \<Rightarrow> error option \<times> World" where
  "RemoveAll a p w =
     (let w' = record_call (CallRemoveAll p) w
      in case fault a (length (calls w)) (CallRemoveAll p) of
           Some err \<Rightarrow> (Some err, w')
         | None \<Rightarrow>
             (None, w'\<lparr>files := (\<lambda>q. if under p q then None else files w q),
                       dirs := Set.filter (\<lambda>q. \<not> under p q) (dirs w)\<rparr>))"

text \<open>\<^verbatim>\<open>MkdirAll\<close> creates the directory and every missing parent; a directory that
  exists is left as it is.\<close>

definition MkdirAll :: "Afero \<Rightarrow> path \<Rightarrow> World \<Rightarrow> error option \<times> World" where
  "MkdirAll a p w =
     (let w' = record_call (CallMkdirAll p) w
      in case fault a (length (calls w)) (CallMkdirAll p) of
           Some err \<Rightarrow> (Some err, w')
         | None \<Rightarrow>
             (None, w'\<lparr>dirs := dirs w \<union>
                 set (filter (\<lambda>q. q \<noteq> []) (map joinSep (prefixes (splitSep p))))\<rparr>))"

text \<open>\<^verbatim>\<open>OpenFile\<close>: a missing file is created when \<^verbatim>\<open>O_CREATE\<close> is given, an
  existing one is cut to length 0 when \<^verbatim>\<open>O_TRUNC\<close> is given; both stamp the
  modification time.\<close>

definition OpenFile :: "Afero \<Rightarrow> path \<Rightarrow> flag list \<Rightarrow> World \<Rightarrow> error option \<times> World" where
  "OpenFile a name flags w =
     (let t = length (calls w);
          w' = record_call (CallOpenFile name flags) w
      in case fault a t (CallOpenFile name flags) of
           Some err \<Rightarrow> (Some err, w')
         | None \<Rightarrow>
             (case files w name of
                None \<Rightarrow>
                  if O_CREATE \<in> set flags
                  then (None, w'\<lparr>files := (files w)(name \<mapsto>
                          \<lparr>content = [], atime = now a t, modtime = now a t\<rparr>)\<rparr>)
                  else (Some (Cause ''file does not exist''), w')
              | Some f \<Rightarrow>
                  if O_TRUNC \<in> set flags
                  then (None, w'\<lparr>files := (files w)(name \<mapsto>
                          f\<lparr>content := [], modtime := now a t\<rparr>)\<rparr>)
                  else (None, w')))"

definition Stat :: "Afero \<Rightarrow> path \<Rightarrow> World \<Rightarrow> (error + File) \<times> World" where
  "Stat a name w =
     (let w' = record_call (CallStat name) w
      in case fault a (length (calls w)) (CallStat name) of
           Some err \<Rightarrow> (Inl err, w')
         | None \<Rightarrow>
             (case files w name of
                None \<Rightarrow> (Inl (Cause ''file does not exist''), w')
              | Some f \<Rightarrow> (Inr f, w')))"

text \<open>Writing \<open>bs\<close> through a handle that stands at offset 0.\<close>

definition writeAt0 :: "Afero \<Rightarrow> nat \<Rightarrow> path \<Rightarrow> 8 word list \<Rightarrow> World \<Rightarrow> World" where
  "writeAt0 a t name bs w =
     (case files w name of
        None \<Rightarrow> w
      | Some f \<Rightarrow>
          if bs = [] then w
          else w\<lparr>files := (files w)(name \<mapsto>
                 f\<lparr>content := bs @ drop (length bs) (content f), modtime := now a t\<rparr>)\<rparr>)"

text \<open>\<^verbatim>\<open>io.Copy(writer, srcFile)\<close>, the writer being the destination handle, or the
  destination handle and the progress bar when a bar is given.\<close>

definition io_Copy :: "Afero \<Rightarrow> ExportOption \<Rightarrow> path \<Rightarrow> 8 word list \<Rightarrow> World \<Rightarrow> error option \<times> World" where
  "io_Copy a option name bs w =
     (let t = length (calls w);
          w' = record_call (CallCopy name) w
      in case copyFault a t name of
           Some (n, err) \<Rightarrow>
             (Some err,
              (writeAt0 a t name (take n bs) w')
                \<lparr>barNum := (if Bar option then barNum w + length (take n bs) else barNum w)\<rparr>)
         | None \<Rightarrow>
             (None,
              (writeAt0 a t name bs w')
                \<lparr>barNum := (if Bar option then barNum w + length bs else barNum w)\<rparr>))"

definition Chtimes :: "Afero \<Rightarrow> path \<Rightarrow> Time \<Rightarrow> Time \<Rightarrow> World \<Rightarrow> error option \<times> World" where
  "Chtimes a name at mt w =
     (let w' = record_call (CallChtimes name at mt) w
      in case fault a (length (calls w)) (CallChtimes name at mt) of
           Some err \<Rightarrow> (Some err, w')
         | None \<Rightarrow>
             (case files w name of
                None \<Rightarrow> (Some (Cause ''file does not exist''), w')
              | Some f \<Rightarrow>
                  (None, w'\<lparr>files := (files w)(name \<mapsto> f\<lparr>atime := at, modtime := mt\<rparr>)\<rparr>)))"

subsection \<open>copyFile (export.go, lines 123 to 168)\<close>

text \<open>The last branch is the source's \<^verbatim>\<open>errors.Wrap(err, "stat dst file failed")\<close>
  with the \<^verbatim>\<open>err\<close> of the successful \<^verbatim>\<open>Stat\<close>, which is \<^verbatim>\<open>nil\<close>.\<close>

definition copyFile ::
  "'l Os \<Rightarrow> Library \<Rightarrow> path \<Rightarrow> path \<Rightarrow> 64 word \<Rightarrow> ExportOption \<Rightarrow> World \<Rightarrow> error option \<times> World" where
  "copyFile os e src dst fileMtime option w0 =
     (case os_Open os src w0 of
        (Inl err, w1) \<Rightarrow> (errors_Wrap (Some err) ''open src file failed'', w1)
      | (Inr srcFile, w1) \<Rightarrow>
     (case times_StatFile os src w1 of
        (Inl err, w2) \<Rightarrow> (errors_Wrap (Some err) ''stat src file failed'', w2)
      | (Inr srcStat, w2) \<Rightarrow>
     (case OpenFile (fs e) dst [O_RDWR, O_TRUNC, O_CREATE] (snd (MkdirAll (fs e) (Dir dst) w2)) of
        (Some err, w4) \<Rightarrow> (errors_Wrap (Some err) ''open dst file failed'', w4)
      | (None, w4) \<Rightarrow>
     (case Stat (fs e) dst w4 of
        (Inl err, w5) \<Rightarrow> (errors_Wrap (Some err) ''stat dst file failed'', w5)
      | (Inr dstStat, w5) \<Rightarrow>
          if ModTime srcStat \<noteq> modtime dstStat
             \<or> fileMtime \<noteq> UnixMilli (modtime dstStat)
             \<or> Overwrite option
          then
            (case io_Copy (fs e) option dst srcFile w5 of
               (Some err, w6) \<Rightarrow> (errors_Wrap (Some err) ''copy file failed'', w6)
             | (None, w6) \<Rightarrow>
            (case Chtimes (fs e) dst (AccessTime srcStat) (ModTime srcStat) w6 of
               (Some err, w7) \<Rightarrow>
                 (errors_Wrap (Some err) (''chtimes failed, path: '' @ dst), w7)
             | (None, w7) \<Rightarrow> (None, w7)))
          else (errors_Wrap None ''stat dst file failed'', w5)))))"

subsection \<open>Export (export.go, lines 42 to 121)\<close>

text \<open>The function a task runs (lines 84 to 118). The source assigns the results of
  \<^verbatim>\<open>parseJsonFile\<close> and of \<^verbatim>\<open>Evaluate\<close> to the variable \<^verbatim>\<open>err\<close> of \<^verbatim>\<open>Export\<close>,
  which the closure captures and all tasks share, and tests it right after each
  assignment; with one task run at a time the value tested is the one just assigned,
  which is what the two \<open>case\<close> expressions below say.\<close>

definition task ::
  "'l Os \<Rightarrow> Library \<Rightarrow> path \<Rightarrow> ExportOption \<Rightarrow> FolderFilter \<Rightarrow> string \<Rightarrow> 64 word \<Rightarrow> World
     \<Rightarrow> error option \<times> World" where
  "task os e outputDir option filter' fileInfoName mtime w0 =
     (case parseJsonFile (parseFileInfo os)
             (Join [BaseDir e, ''images'', fileInfoName @ ''.info'', ''metadata.json'']) w0 of
        (Inl err, w1) \<Rightarrow> (Some err, w1)
      | (Inr fileInfo, w1) \<Rightarrow>
          if IsDeleted fileInfo then (None, w1)
          else
            let infoDir = Join [BaseDir e, ''images'', fileInfoName @ ''.info''];
                fileName = Name fileInfo @ ''.'' @ Ext fileInfo;
                src = Join [infoDir, fileName]
            in
              if GroupBySmartFolder option then
                (case Evaluate filter' fileInfo w1 of
                   (Inl err, w2) \<Rightarrow> (Some err, w2)
                 | (Inr category, w2) \<Rightarrow>
                     if category = []
                     then copyFile os e src (Join [outputDir, ''uncategorized'', fileName])
                            mtime option w2
                     else copyFile os e src (Join [outputDir, category, fileName])
                            mtime option w2)
              else copyFile os e src (Join [outputDir, fileName]) mtime option w1)"

text \<open>The \<^verbatim>\<open>range\<close> loop (lines 76 to 119) with the pool: the entry \<^verbatim>\<open>"all"\<close> is
  skipped, every other entry submits one task, and the result of each task is kept.\<close>

fun submitAll ::
  "(string \<Rightarrow> 64 word \<Rightarrow> World \<Rightarrow> error option \<times> World) \<Rightarrow> Mtime \<Rightarrow> World
     \<Rightarrow> error option list \<times> World" where
  "submitAll t [] w = ([], w)"
| "submitAll t ((fileInfoName, mtime) # rest) w =
     (if fileInfoName = ''all'' then submitAll t rest w
      else
        (case t fileInfoName mtime (record_call (CallGo fileInfoName) w) of
           (r, w1) \<Rightarrow>
             (case submitAll t rest w1 of
                (rs, w2) \<Rightarrow> (r # rs, w2))))"

text \<open>\<^verbatim>\<open>Wait\<close> of a pool made \<^verbatim>\<open>WithErrors\<close>: \<^verbatim>\<open>nil\<close> when no task returned an
  error, the errors of all failed tasks joined otherwise.\<close>

definition pool_Wait :: "error option list \<Rightarrow> error option" where
  "pool_Wait rs =
     (case List.map_filter (\<lambda>r. r) rs of
        [] \<Rightarrow> None
      | errs \<Rightarrow> Some (Joined errs))"

definition Export ::
  "'l Os \<Rightarrow> Library \<Rightarrow> path \<Rightarrow> ExportOption \<Rightarrow> World \<Rightarrow> error option \<times> World" where
  "Export os e outputDir option w0 =
     (case (if Force option then RemoveAll (fs e) outputDir w0 else (None, w0)) of
        (Some err, w1) \<Rightarrow>
          (errors_Wrap (Some err)
             (''delete directory '' @ [CHR 0x27] @ outputDir @ [CHR 0x27] @ '' failed''), w1)
      | (None, w1) \<Rightarrow>
     (case parseJsonFile (parseMtime os) (Join [BaseDir e, ''mtime.json'']) w1 of
        (Inl err, w2) \<Rightarrow> (Some err, w2)
      | (Inr mtimeMap, w2) \<Rightarrow>
     (case parseJsonFile (parseLibraryInfo os) (Join [BaseDir e, ''metadata.json'']) w2 of
        (Inl err, w3) \<Rightarrow> (Some err, w3)
      | (Inr libraryMetadata, w3) \<Rightarrow>
     (case NewFolderFilter os libraryMetadata w3 of
        (filter', w4) \<Rightarrow>
     (case map_of mtimeMap ''all'' of
        None \<Rightarrow> (Some (errors_New (''field '' @ [CHR 0x27] @ ''all'' @ [CHR 0x27] @ '' not exists'')), w4)
      | Some count \<Rightarrow>
          (let w5 = (if Bar option then ChangeMax64 count w4 else w4)
           in case submitAll (task os e outputDir option filter') mtimeMap w5 of
                (rs, w6) \<Rightarrow>
                  (pool_Wait rs, (if Bar option then Finish w6 else w6))))))))"

subsection \<open>Notions used in the statements\<close>

text \<open>The calls made between the world \<open>w\<close> and a later world \<open>w'\<close>.\<close>

definition newCalls :: "World \<Rightarrow> World \<Rightarrow> call list" where
  "newCalls w w' = drop (length (calls w)) (calls w')"

text \<open>The world in which \<^verbatim>\<open>copyFile\<close> opens the destination (line 137): the source
  has been opened and its times read, and \<^verbatim>\<open>MkdirAll\<close> has been called, its error
  ignored.\<close>

definition beforeOpen :: "Library \<Rightarrow> path \<Rightarrow> path \<Rightarrow> World \<Rightarrow> World" where
  "beforeOpen e src dst w =
     snd (MkdirAll (fs e) (Dir dst)
            (record_call (CallStatFile src) (record_call (CallOpen src) w)))"

text \<open>The condition of line 148.\<close>

definition needsCopy :: "Timespec \<Rightarrow> File \<Rightarrow> 64 word \<Rightarrow> ExportOption \<Rightarrow> bool" where
  "needsCopy srcStat dstStat fileMtime option =
     (ModTime srcStat \<noteq> modtime dstStat
      \<or> fileMtime \<noteq> UnixMilli (modtime dstStat)
      \<or> Overwrite option)"

text \<open>The world in which \<^verbatim>\<open>copyFile\<close> calls \<^verbatim>\<open>Chtimes\<close> (line 159), the bytes
  \<open>bs\<close> of the source having been copied.\<close>

definition afterCopy ::
  "Library \<Rightarrow> ExportOption \<Rightarrow> path \<Rightarrow> path \<Rightarrow> 8 word list \<Rightarrow> World \<Rightarrow> World" where
  "afterCopy e option src dst bs w =
     snd (io_Copy (fs e) option dst bs
       (snd (Stat (fs e) dst
          (snd (OpenFile (fs e) dst [O_RDWR, O_TRUNC, O_CREATE] (beforeOpen e src dst w))))))"

text \<open>The names of the tasks submitted to the pool, in order.\<close>

definition submitted :: "call list \<Rightarrow> string list" where
  "submitted cs = List.map_filter (\<lambda>c. case c of CallGo k \<Rightarrow> Some k | _ \<Rightarrow> None) cs"

text \<open>The calls a task may make; \<^verbatim>\<open>Evaluate\<close> only when grouping is on (\<open>g\<close>).\<close>

fun taskCall :: "bool \<Rightarrow> call \<Rightarrow> bool" where
  "taskCall g (CallParseJson p) = True"
| "taskCall g (CallEvaluate fileInfo) = g"
| "taskCall g (CallOpen p) = True"
| "taskCall g (CallStatFile p) = True"
| "taskCall g (CallMkdirAll p) = True"
| "taskCall g (CallOpenFile p flags) = True"
| "taskCall g (CallStat p) = True"
| "taskCall g (CallCopy p) = True"
| "taskCall g (CallChtimes p a m) = True"
| "taskCall g c = False"

text \<open>The calls Export may make after the forced removal.\<close>

fun exportCall :: "bool \<Rightarrow> call \<Rightarrow> bool" where
  "exportCall g (CallGo k) = True"
| "exportCall g CallNewFolderFilter = True"
| "exportCall g (CallChangeMax64 n) = True"
| "exportCall g CallFinish = True"
| "exportCall g c = taskCall g c"

text \<open>The paths of lines 51 and 57.\<close>

definition mtimePath :: "Library \<Rightarrow> path" where
  "mtimePath e = Join [BaseDir e, ''mtime.json'']"

definition libraryPath :: "Library \<Rightarrow> path" where
  "libraryPath e = Join [BaseDir e, ''metadata.json'']"

text \<open>The world in which the loop of \<^verbatim>\<open>Export\<close> starts (line 75): both documents
  have been parsed, the filter made and the bar, if any, given its maximum.\<close>

definition loadedWorld :: "Library \<Rightarrow> ExportOption \<Rightarrow> 64 word \<Rightarrow> World \<Rightarrow> World" where
  "loadedWorld e option count w =
     (let w4 = record_call CallNewFolderFilter
                 (record_call (CallParseJson (libraryPath e))
                    (record_call (CallParseJson (mtimePath e)) w))
      in if Bar option then ChangeMax64 count w4 else w4)"

text \<open>The paths of lines 86 and 96 to 98.\<close>

definition metadataPath :: "Library \<Rightarrow> string \<Rightarrow> path" where
  "metadataPath e fileInfoName =
     Join [BaseDir e, ''images'', fileInfoName @ ''.info'', ''metadata.json'']"

definition srcPath :: "Library \<Rightarrow> string \<Rightarrow> FileInfo \<Rightarrow> path" where
  "srcPath e fileInfoName fileInfo =
     Join [Join [BaseDir e, ''images'', fileInfoName @ ''.info''],
           Name fileInfo @ ''.'' @ Ext fileInfo]"

subsection \<open>A small library, used for the concrete runs\<close>

text \<open>The index is \<^verbatim>\<open>{"all": 2, "a1": 1000, "a2": 2000}\<close>; asset \<^verbatim>\<open>a1\<close> is the file
  \<^verbatim>\<open>x.jpg\<close>, last modified at second 1, and asset \<^verbatim>\<open>a2\<close> is deleted.\<close>

definition T1 :: Time where
  "T1 = \<lparr>unixSec = 1, nsec = 0\<rparr>"

definition T2 :: Time where
  "T2 = \<lparr>unixSec = 2, nsec = 0\<rparr>"

definition demoOs :: "unit Os" where
  "demoOs =
     \<lparr>parseMtime = (\<lambda>p. if p = ''/lib/mtime.json''
          then Inr [(''all'', 2), (''a1'', 1000), (''a2'', 2000)]
          else Inl (Cause ''no such file'')),
      parseLibraryInfo = (\<lambda>p. if p = ''/lib/metadata.json'' then Inr ()
          else Inl (Cause ''no such file'')),
      parseFileInfo = (\<lambda>p.
          if p = ''/lib/images/a1.info/metadata.json''
          then Inr \<lparr>Name = ''x'', Ext = ''jpg'', IsDeleted = False\<rparr>
          else if p = ''/lib/images/a2.info/metadata.json''
          then Inr \<lparr>Name = ''y'', Ext = ''png'', IsDeleted = True\<rparr>
          else Inl (Cause ''no such file'')),
      newFolderFilter = (\<lambda>l fileInfo. Inr (if Name fileInfo = ''x'' then ''cats'' else [])),
      openSrc = (\<lambda>p. if p = ''/lib/images/a1.info/x.jpg'' then Inr [1, 2, 3]
          else Inl (Cause ''no such file'')),
      statSrc = (\<lambda>p. if p = ''/lib/images/a1.info/x.jpg''
          then Inr \<lparr>AccessTime = T2, ModTime = T1\<rparr>
          else Inl (Cause ''no such file''))\<rparr>"

text \<open>A library whose index document cannot be read.\<close>

definition brokenOs :: "unit Os" where
  "brokenOs = demoOs\<lparr>parseMtime := (\<lambda>p. Inl (Cause ''unexpected end of JSON input''))\<rparr>"

text \<open>A library whose index names an asset without metadata before the others.\<close>

definition strayOs :: "unit Os" where
  "strayOs = demoOs\<lparr>parseMtime := (\<lambda>p. if p = ''/lib/mtime.json''
      then Inr [(''a3'', 5), (''all'', 3), (''a1'', 1000), (''a2'', 2000)]
      else Inl (Cause ''no such file''))\<rparr>"

text \<open>A store on which no call fails and whose clock stands at \<open>t\<close>, and one that fails
  the call \<open>c\<close> with the cause \<open>err\<close>.\<close>

definition calmFs :: "Time \<Rightarrow> Afero" where
  "calmFs t = \<lparr>fault = (\<lambda>n c. None), copyFault = (\<lambda>n p. None), now = (\<lambda>n. t)\<rparr>"

definition faultyFs :: "call \<Rightarrow> error \<Rightarrow> Time \<Rightarrow> Afero" where
  "faultyFs c err t =
     \<lparr>fault = (\<lambda>n c'. if c' = c then Some err else None),
      copyFault = (\<lambda>n p. None), now = (\<lambda>n. t)\<rparr>"

definition demoLib :: "Afero \<Rightarrow> Library" where
  "demoLib a = \<lparr>BaseDir = ''/lib'', fs = a\<rparr>"

definition emptyWorld :: World where
  "emptyWorld =
     \<lparr>files = Map.empty, dirs = {}, calls = [], barMax = 0, barNum = 0, barFinished = False\<rparr>"

text \<open>The destination after an earlier export: \<^verbatim>\<open>/out/x.jpg\<close> is there, modified at
  second 1 as the source is, with content of its own.\<close>

definition exportedWorld :: World where
  "exportedWorld =
     emptyWorld\<lparr>files := [''/out/x.jpg'' \<mapsto> \<lparr>content = [9, 9], atime = T1, modtime = T1\<rparr>],
                dirs := {''/out''}\<rparr>"

definition plain :: ExportOption where
  "plain = \<lparr>Overwrite = False, Force = False, Bar = False, GroupBySmartFolder = False\<rparr>"

section \<open>Properties\<close>

subsection \<open>The operations of the store\<close>

lemmas op_defs = record_call_def parseJsonFile_def NewFolderFilter_def Evaluate_def os_Open_def
  times_StatFile_def ChangeMax64_def Finish_def RemoveAll_def MkdirAll_def OpenFile_def Stat_def
  writeAt0_def io_Copy_def Chtimes_def beforeOpen_def newCalls_def

lemmas demo_defs = T1_def T2_def demoOs_def brokenOs_def strayOs_def calmFs_def faultyFs_def
  demoLib_def emptyWorld_def exportedWorld_def plain_def

lemmas path_defs = Join_def Clean_def Dir_def metadataPath_def srcPath_def mtimePath_def
  libraryPath_def under_def

lemma record_call_simps [simp]:
  "calls (record_call c w) = calls w @ [c]"
  "files (record_call c w) = files w"
  "dirs (record_call c w) = dirs w"
  "barNum (record_call c w) = barNum w"
  by (simp_all add: record_call_def)

lemma newCalls_append [simp]: "calls w' = calls w @ cs \<Longrightarrow> newCalls w w' = cs"
  by (simp add: newCalls_def)

lemma MkdirAll_snd [simp]:
  "calls (snd (MkdirAll a p w)) = calls w @ [CallMkdirAll p]"
  "files (snd (MkdirAll a p w)) = files w"
  by (simp_all add: MkdirAll_def Let_def split: option.splits)

lemma OpenFile_calls [simp]:
  "calls (snd (OpenFile a name flags w)) = calls w @ [CallOpenFile name flags]"
  by (simp add: OpenFile_def Let_def split: option.splits)

lemma OpenFile_callsD:
  "OpenFile a name flags w = (r, w') \<Longrightarrow> calls w' = calls w @ [CallOpenFile name flags]"
  using OpenFile_calls [of a name flags w] by simp

lemma OpenFile_create_trunc:
  assumes "OpenFile a name [O_RDWR, O_TRUNC, O_CREATE] w = (None, w')"
  shows "\<exists>f. files w' name = Some f \<and> content f = [] \<and> modtime f = now a (length (calls w))"
  using assms by (auto simp: OpenFile_def Let_def split: option.splits)

lemma Stat_snd [simp]: "snd (Stat a name w) = record_call (CallStat name) w"
  by (simp add: Stat_def Let_def split: option.splits)

lemma Stat_sndD: "Stat a name w = (r, w') \<Longrightarrow> w' = record_call (CallStat name) w"
  using Stat_snd [of a name w] by simp

lemma Stat_Inr:
  assumes "Stat a name w = (Inr f, w')"
  shows "files w name = Some f"
  using assms by (auto simp: Stat_def Let_def split: option.splits)

lemma io_Copy_calls [simp]:
  "calls (snd (io_Copy a option name bs w)) = calls w @ [CallCopy name]"
  by (auto simp: io_Copy_def writeAt0_def Let_def split: option.splits)

lemma io_Copy_callsD:
  "io_Copy a option name bs w = (r, w') \<Longrightarrow> calls w' = calls w @ [CallCopy name]"
  using io_Copy_calls [of a option name bs w] by simp

lemma io_Copy_None:
  assumes "io_Copy a option name bs w = (None, w')" "files w name = Some f" "content f = []"
  shows "\<exists>f'. files w' name = Some f' \<and> content f' = bs"
  using assms by (auto simp: io_Copy_def writeAt0_def Let_def split: option.splits)

lemma Chtimes_calls [simp]:
  "calls (snd (Chtimes a name at mt w)) = calls w @ [CallChtimes name at mt]"
  by (simp add: Chtimes_def Let_def split: option.splits)

lemma Chtimes_callsD:
  "Chtimes a name at mt w = (r, w') \<Longrightarrow> calls w' = calls w @ [CallChtimes name at mt]"
  using Chtimes_calls [of a name at mt w] by simp

lemma Chtimes_None:
  assumes "Chtimes a name at mt w = (None, w')" "files w name = Some f"
  shows "files w' name = Some (f\<lparr>atime := at, modtime := mt\<rparr>)"
  using assms by (auto simp: Chtimes_def Let_def split: option.splits)

lemma Chtimes_fault:
  assumes "fault a (length (calls w)) (CallChtimes name at mt) = Some err"
  shows "fst (Chtimes a name at mt w) = Some err"
  using assms by (simp add: Chtimes_def Let_def)

lemma calls_beforeOpen [simp]:
  "calls (beforeOpen e src dst w) =
     calls w @ [CallOpen src, CallStatFile src, CallMkdirAll (Dir dst)]"
  by (simp add: beforeOpen_def)

subsection \<open>The stages of copyFile\<close>

lemma copyFile_decision:
  assumes "openSrc os src = Inr bs" "statSrc os src = Inr st"
    and "OpenFile (fs e) dst [O_RDWR, O_TRUNC, O_CREATE] (beforeOpen e src dst w) = (None, w4)"
    and "Stat (fs e) dst w4 = (Inr dstStat, w5)"
  shows "copyFile os e src dst fileMtime option w =
     (if needsCopy st dstStat fileMtime option then
        (case io_Copy (fs e) option dst bs w5 of
           (Some err, w6) \<Rightarrow> (Some (Wrapped ''copy file failed'' err), w6)
         | (None, w6) \<Rightarrow>
            (case Chtimes (fs e) dst (AccessTime st) (ModTime st) w6 of
               (Some err, w7) \<Rightarrow> (Some (Wrapped (''chtimes failed, path: '' @ dst) err), w7)
             | (None, w7) \<Rightarrow> (None, w7)))
      else (None, w5))"
  using assms
  by (simp add: copyFile_def os_Open_def times_StatFile_def beforeOpen_def needsCopy_def
      split: prod.splits option.splits)

lemma copyFile_None_stages:
  assumes "copyFile os e src dst fileMtime option w = (None, w')"
  shows "\<exists>bs st w4 dstStat w5. openSrc os src = Inr bs \<and> statSrc os src = Inr st
     \<and> OpenFile (fs e) dst [O_RDWR, O_TRUNC, O_CREATE] (beforeOpen e src dst w) = (None, w4)
     \<and> Stat (fs e) dst w4 = (Inr dstStat, w5)"
  using assms
  by (auto simp: copyFile_def os_Open_def times_StatFile_def beforeOpen_def
      split: sum.splits prod.splits option.splits if_splits)

text \<open>What a successful call has done: the destination was opened and cut to length 0,
  and then either copied with the source's times, or left empty.\<close>

lemma copyFile_None_cases:
  assumes "copyFile os e src dst fileMtime option w = (None, w')"
  shows "\<exists>bs st f4. openSrc os src = Inr bs \<and> statSrc os src = Inr st
      \<and> fst (OpenFile (fs e) dst [O_RDWR, O_TRUNC, O_CREATE] (beforeOpen e src dst w)) = None
      \<and> files (snd (OpenFile (fs e) dst [O_RDWR, O_TRUNC, O_CREATE] (beforeOpen e src dst w))) dst
          = Some f4
      \<and> content f4 = []
      \<and> modtime f4 = now (fs e) (length (calls w) + 3)
      \<and> (if needsCopy st f4 fileMtime option
          then (\<exists>f. files w' dst = Some f \<and> content f = bs
                  \<and> atime f = AccessTime st \<and> modtime f = ModTime st)
               \<and> calls w' = calls w @ [CallOpen src, CallStatFile src, CallMkdirAll (Dir dst),
                    CallOpenFile dst [O_RDWR, O_TRUNC, O_CREATE], CallStat dst,
                    CallCopy dst, CallChtimes dst (AccessTime st) (ModTime st)]
          else files w' dst = Some f4
               \<and> calls w' = calls w @ [CallOpen src, CallStatFile src, CallMkdirAll (Dir dst),
                    CallOpenFile dst [O_RDWR, O_TRUNC, O_CREATE], CallStat dst])"
proof -
  from copyFile_None_stages [OF assms] obtain bs st w4 dstStat w5 where
    src: "openSrc os src = Inr bs" "statSrc os src = Inr st"
    and op: "OpenFile (fs e) dst [O_RDWR, O_TRUNC, O_CREATE] (beforeOpen e src dst w) = (None, w4)"
    and stat: "Stat (fs e) dst w4 = (Inr dstStat, w5)"
    by blast
  from OpenFile_create_trunc [OF op] obtain f4 where
    f4: "files w4 dst = Some f4" "content f4 = []"
        "modtime f4 = now (fs e) (length (calls (beforeOpen e src dst w)))"
    by blast
  have ds: "dstStat = f4" using Stat_Inr [OF stat] f4 by simp
  have w5: "w5 = record_call (CallStat dst) w4" using Stat_sndD [OF stat] .
  have c4: "calls w4 = calls w @ [CallOpen src, CallStatFile src, CallMkdirAll (Dir dst),
      CallOpenFile dst [O_RDWR, O_TRUNC, O_CREATE]]"
    using OpenFile_callsD [OF op] by simp
  have f5: "files w5 dst = Some f4" using f4 w5 by simp
  note dec = copyFile_decision [OF src op stat, of fileMtime option]
  show ?thesis
  proof (cases "needsCopy st f4 fileMtime option")
    case False
    then have "w' = w5" using dec assms ds by simp
    then show ?thesis using src op f4 False f5 c4 w5 by (auto simp: eval_nat_numeral)
  next
    case True
    then obtain w6 where cp: "io_Copy (fs e) option dst bs w5 = (None, w6)"
      and ch: "Chtimes (fs e) dst (AccessTime st) (ModTime st) w6 = (None, w')"
      using dec assms ds by (auto split: prod.splits option.splits)
    from io_Copy_None [OF cp f5 f4(2)] obtain f6 where
      f6: "files w6 dst = Some f6" "content f6 = bs"
      by blast
    have "files w' dst = Some (f6\<lparr>atime := AccessTime st, modtime := ModTime st\<rparr>)"
      using Chtimes_None [OF ch f6(1)] .
    moreover have "calls w' = calls w @ [CallOpen src, CallStatFile src, CallMkdirAll (Dir dst),
        CallOpenFile dst [O_RDWR, O_TRUNC, O_CREATE], CallStat dst,
        CallCopy dst, CallChtimes dst (AccessTime st) (ModTime st)]"
      using Chtimes_callsD [OF ch] io_Copy_callsD [OF cp] c4 w5 by simp
    ultimately show ?thesis using src op f4 True f6 by (auto simp: eval_nat_numeral)
  qed
qed

lemma calls_afterCopy [simp]:
  "calls (afterCopy e option src dst bs w) =
     calls w @ [CallOpen src, CallStatFile src, CallMkdirAll (Dir dst),
            CallOpenFile dst [O_RDWR, O_TRUNC, O_CREATE], CallStat dst, CallCopy dst]"
  by (simp add: afterCopy_def)

lemma copyFile_at_Chtimes:
  assumes "CallChtimes dst a m \<in> set (newCalls w (snd (copyFile os e src dst fileMtime option w)))"
  shows "\<exists>bs. openSrc os src = Inr bs \<and> fst (copyFile os e src dst fileMtime option w) =
          errors_Wrap (fst (Chtimes (fs e) dst a m (afterCopy e option src dst bs w)))
            (''chtimes failed, path: '' @ dst)"
  using assms
  by (simp add: copyFile_def os_Open_def times_StatFile_def newCalls_def split_beta
      afterCopy_def beforeOpen_def
      split: sum.splits option.splits if_splits) auto

lemma copyFile_at_Stat:
  assumes "CallStat dst \<in> set (newCalls w (snd (copyFile os e src dst fileMtime option w)))"
  shows "fst (OpenFile (fs e) dst [O_RDWR, O_TRUNC, O_CREATE] (beforeOpen e src dst w)) = None
     \<and> (\<exists>post. newCalls w (snd (copyFile os e src dst fileMtime option w)) =
          [CallOpen src, CallStatFile src, CallMkdirAll (Dir dst),
           CallOpenFile dst [O_RDWR, O_TRUNC, O_CREATE], CallStat dst] @ post)"
  using assms
  by (simp add: copyFile_def os_Open_def times_StatFile_def newCalls_def split_beta
      beforeOpen_def split: sum.splits option.splits if_splits)

subsection \<open>The task of one asset\<close>

lemma task_parse_error:
  assumes "parseFileInfo os (metadataPath e n) = Inl err"
  shows "task os e outputDir option flt n mtime w =
           (Some err, record_call (CallParseJson (metadataPath e n)) w)"
  using assms by (simp add: task_def parseJsonFile_def metadataPath_def)

lemma task_deleted:
  assumes "parseFileInfo os (metadataPath e n) = Inr fileInfo" "IsDeleted fileInfo"
  shows "task os e outputDir option flt n mtime w =
           (None, record_call (CallParseJson (metadataPath e n)) w)"
  using assms by (simp add: task_def parseJsonFile_def metadataPath_def)

lemma task_flat:
  assumes "parseFileInfo os (metadataPath e n) = Inr fileInfo" "\<not> IsDeleted fileInfo"
    and "\<not> GroupBySmartFolder option"
  shows "task os e outputDir option flt n mtime w =
           copyFile os e (srcPath e n fileInfo)
             (Join [outputDir, Name fileInfo @ ''.'' @ Ext fileInfo]) mtime option
             (record_call (CallParseJson (metadataPath e n)) w)"
  using assms by (simp add: task_def parseJsonFile_def metadataPath_def srcPath_def Let_def)

lemma task_filter_error:
  assumes "parseFileInfo os (metadataPath e n) = Inr fileInfo" "\<not> IsDeleted fileInfo"
    and "GroupBySmartFolder option" "flt fileInfo = Inl err"
  shows "task os e outputDir option flt n mtime w =
           (Some err, record_call (CallEvaluate fileInfo)
                        (record_call (CallParseJson (metadataPath e n)) w))"
  using assms
  by (simp add: task_def parseJsonFile_def Evaluate_def metadataPath_def Let_def)

lemma task_grouped:
  assumes "parseFileInfo os (metadataPath e n) = Inr fileInfo" "\<not> IsDeleted fileInfo"
    and "GroupBySmartFolder option" "flt fileInfo = Inr category"
  shows "task os e outputDir option flt n mtime w =
           copyFile os e (srcPath e n fileInfo)
             (Join [outputDir, if category = [] then ''uncategorized'' else category,
                    Name fileInfo @ ''.'' @ Ext fileInfo]) mtime option
             (record_call (CallEvaluate fileInfo)
                (record_call (CallParseJson (metadataPath e n)) w))"
  using assms
  by (simp add: task_def parseJsonFile_def Evaluate_def metadataPath_def srcPath_def Let_def)

lemma copyFile_calls_task:
  "\<exists>cs. calls (snd (copyFile os e src dst fileMtime option w)) = calls w @ cs
     \<and> (\<forall>c \<in> set cs. taskCall g c)"
  by (simp add: copyFile_def os_Open_def times_StatFile_def split_beta
      split: sum.splits option.splits)

lemma calls_after_record:
  assumes "\<exists>cs. calls w2 = calls (record_call c w) @ cs \<and> (\<forall>x \<in> set cs. P x)" and "P c"
  shows "\<exists>cs. calls w2 = calls w @ cs \<and> (\<forall>x \<in> set cs. P x)"
proof -
  from assms(1) obtain cs where "calls w2 = calls w @ (c # cs)" "\<forall>x \<in> set cs. P x" by auto
  with assms(2) have "calls w2 = calls w @ (c # cs) \<and> (\<forall>x \<in> set (c # cs). P x)" by simp
  then show ?thesis by blast
qed

lemma calls_record_only:
  assumes "P c"
  shows "\<exists>cs. calls (record_call c w) = calls w @ cs \<and> (\<forall>x \<in> set cs. P x)"
proof -
  have "calls (record_call c w) = calls w @ [c] \<and> (\<forall>x \<in> set [c]. P x)" using assms by simp
  then show ?thesis by blast
qed

lemma task_calls:
  "\<exists>cs. calls (snd (task os e outputDir option flt n mtime w)) = calls w @ cs
     \<and> (\<forall>c \<in> set cs. taskCall (GroupBySmartFolder option) c)"
proof (cases "parseFileInfo os (metadataPath e n)")
  case (Inl err)
  show ?thesis unfolding task_parse_error [of os e n err, OF Inl] snd_conv
    by (rule calls_record_only) simp
next
  case (Inr fileInfo)
  show ?thesis
  proof (cases "IsDeleted fileInfo")
    case True
    show ?thesis unfolding task_deleted [of os e n fileInfo, OF Inr True] snd_conv
      by (rule calls_record_only) simp
  next
    case False
    show ?thesis
    proof (cases "GroupBySmartFolder option")
      case g: False
      show ?thesis unfolding task_flat [of os e n fileInfo option, OF Inr False g]
        by (rule calls_after_record [OF copyFile_calls_task]) simp
    next
      case g: True
      show ?thesis
      proof (cases "flt fileInfo")
        case (Inl err)
        show ?thesis unfolding task_filter_error [of os e n fileInfo option flt err, OF Inr False g Inl] snd_conv
          by (rule calls_after_record [OF calls_record_only]) (simp_all add: g)
      next
        case c: (Inr category)
        show ?thesis unfolding task_grouped [of os e n fileInfo option flt category, OF Inr False g c]
          by (rule calls_after_record [OF calls_after_record [OF copyFile_calls_task]])
            (simp_all add: g)
      qed
    qed
  qed
qed

subsection \<open>The loop and the pool\<close>

lemma submitted_simps [simp]:
  "submitted [] = []"
  "submitted (CallGo k # cs) = k # submitted cs"
  "submitted (cs @ cs') = submitted cs @ submitted cs'"
  by (simp_all add: submitted_def List.map_filter_def)

lemma submitted_taskCalls:
  "\<forall>c \<in> set cs. taskCall g c \<Longrightarrow> submitted cs = []"
proof (induction cs)
  case Nil
  then show ?case by simp
next
  case (Cons c cs)
  then have "taskCall g c" by simp
  then have "submitted [c] = []"
    by (cases c) (simp_all add: submitted_def List.map_filter_def)
  moreover have "submitted cs = []" using Cons by simp
  ultimately show ?case using submitted_simps(3) [of "[c]" cs] by simp
qed


lemma submitAll_calls:
  assumes "\<And>k v w. \<exists>cs. calls (snd (t k v w)) = calls w @ cs \<and> (\<forall>c \<in> set cs. taskCall g c)"
  shows "\<exists>cs. calls (snd (submitAll t m w)) = calls w @ cs
     \<and> (\<forall>c \<in> set cs. taskCall g c \<or> (\<exists>k. c = CallGo k))
     \<and> submitted cs = filter (\<lambda>k. k \<noteq> ''all'') (map fst m)"
proof (induction m arbitrary: w)
  case Nil
  then show ?case by simp
next
  case (Cons kv m)
  obtain k v where kv: "kv = (k, v)" by (cases kv)
  show ?case
  proof (cases "k = ''all''")
    case True
    with kv Cons [of w] show ?thesis by simp
  next
    case False
    obtain r w1 where t: "t k v (record_call (CallGo k) w) = (r, w1)"
      by (cases "t k v (record_call (CallGo k) w)")
    obtain rs w2 where s: "submitAll t m w1 = (rs, w2)" by (cases "submitAll t m w1")
    from assms [of k v "record_call (CallGo k) w"] t obtain cs1 where
      cs1: "calls w1 = calls w @ CallGo k # cs1" "\<forall>c \<in> set cs1. taskCall g c"
      by auto
    from Cons [of w1] s obtain cs2 where
      cs2: "calls w2 = calls w1 @ cs2" "\<forall>c \<in> set cs2. taskCall g c \<or> (\<exists>k. c = CallGo k)"
        "submitted cs2 = filter (\<lambda>k. k \<noteq> ''all'') (map fst m)"
      by auto
    have "calls w2 = calls w @ (CallGo k # cs1 @ cs2)" using cs1 cs2 by simp
    moreover have "\<forall>c \<in> set (CallGo k # cs1 @ cs2). taskCall g c \<or> (\<exists>k. c = CallGo k)"
      using cs1 cs2 by auto
    moreover have "submitted (CallGo k # cs1 @ cs2) = filter (\<lambda>k. k \<noteq> ''all'') (map fst (kv # m))"
      using cs1(2) cs2(3) kv False by (simp add: submitted_taskCalls)
    moreover have "snd (submitAll t (kv # m) w) = w2" using kv False t s by simp
    ultimately show ?thesis by metis
  qed
qed



subsection \<open>Export\<close>

lemma RemoveAll_calls [simp]:
  "calls (snd (RemoveAll a p w)) = calls w @ [CallRemoveAll p]"
  by (simp add: RemoveAll_def Let_def split: option.splits)

lemma RemoveAll_fault:
  assumes "fault a (length (calls w)) (CallRemoveAll p) = Some err"
  shows "RemoveAll a p w = (Some err, record_call (CallRemoveAll p) w)"
  using assms by (simp add: RemoveAll_def Let_def)

lemma RemoveAll_ok:
  assumes "fault a (length (calls w)) (CallRemoveAll p) = None"
  shows "fst (RemoveAll a p w) = None"
    and "under p q \<Longrightarrow> files (snd (RemoveAll a p w)) q = None"
    and "\<not> under p q \<Longrightarrow> files (snd (RemoveAll a p w)) q = files w q"
  using assms by (simp_all add: RemoveAll_def Let_def)

lemma io_Copy_Force [simp]:
  "io_Copy a (option\<lparr>Force := b\<rparr>) name bs w = io_Copy a option name bs w"
  by (simp add: io_Copy_def cong: option.case_cong prod.case_cong)

lemma copyFile_Force [simp]:
  "copyFile os e src dst fileMtime (option\<lparr>Force := b\<rparr>) w = copyFile os e src dst fileMtime option w"
  by (simp add: copyFile_def cong: option.case_cong prod.case_cong sum.case_cong if_cong)

lemma task_Force [simp]:
  "task os e outputDir (option\<lparr>Force := b\<rparr>) flt = task os e outputDir option flt"
  by (intro ext) (simp add: task_def cong: prod.case_cong sum.case_cong if_cong)

lemma Export_remove_failed:
  assumes "Force option" "fault (fs e) (length (calls w)) (CallRemoveAll outputDir) = Some err"
  shows "Export os e outputDir option w =
     (Some (Wrapped (''delete directory '' @ [CHR 0x27] @ outputDir @ [CHR 0x27] @ '' failed'') err),
      record_call (CallRemoveAll outputDir) w)"
  using assms by (simp add: Export_def RemoveAll_fault)

lemma Export_after_remove:
  assumes "Force option" "fault (fs e) (length (calls w)) (CallRemoveAll outputDir) = None"
  shows "Export os e outputDir option w =
     Export os e outputDir (option\<lparr>Force := False\<rparr>) (snd (RemoveAll (fs e) outputDir w))"
  using assms RemoveAll_ok(1) [OF assms(2)]
  by (simp add: Export_def split_beta Let_def
      cong: option.case_cong prod.case_cong sum.case_cong if_cong)

lemma Export_index_error:
  assumes "\<not> Force option" "parseMtime os (mtimePath e) = Inl err"
  shows "Export os e outputDir option w = (Some err, record_call (CallParseJson (mtimePath e)) w)"
  using assms by (simp add: Export_def parseJsonFile_def mtimePath_def)

lemma Export_library_error:
  assumes "\<not> Force option" "parseMtime os (mtimePath e) = Inr mtimeMap"
    and "parseLibraryInfo os (libraryPath e) = Inl err"
  shows "Export os e outputDir option w =
     (Some err, record_call (CallParseJson (libraryPath e))
                  (record_call (CallParseJson (mtimePath e)) w))"
  using assms by (simp add: Export_def parseJsonFile_def mtimePath_def libraryPath_def)

lemma Export_no_all:
  assumes "\<not> Force option" "parseMtime os (mtimePath e) = Inr mtimeMap"
    and "parseLibraryInfo os (libraryPath e) = Inr libraryMetadata"
    and "map_of mtimeMap ''all'' = None"
  shows "Export os e outputDir option w =
     (Some (Cause (''field '' @ [CHR 0x27] @ ''all'' @ [CHR 0x27] @ '' not exists'')),
      record_call CallNewFolderFilter
        (record_call (CallParseJson (libraryPath e))
           (record_call (CallParseJson (mtimePath e)) w)))"
  using assms
  by (simp add: Export_def parseJsonFile_def NewFolderFilter_def errors_New_def
      mtimePath_def libraryPath_def)

lemma Export_run:
  assumes "\<not> Force option" "parseMtime os (mtimePath e) = Inr mtimeMap"
    and "parseLibraryInfo os (libraryPath e) = Inr libraryMetadata"
    and "map_of mtimeMap ''all'' = Some count"
  shows "Export os e outputDir option w =
     (pool_Wait (fst (submitAll (task os e outputDir option (newFolderFilter os libraryMetadata))
                        mtimeMap (loadedWorld e option count w))),
      (if Bar option
       then Finish (snd (submitAll (task os e outputDir option (newFolderFilter os libraryMetadata))
                        mtimeMap (loadedWorld e option count w)))
       else snd (submitAll (task os e outputDir option (newFolderFilter os libraryMetadata))
                        mtimeMap (loadedWorld e option count w))))"
  using assms
  by (simp add: Export_def parseJsonFile_def NewFolderFilter_def loadedWorld_def
      mtimePath_def libraryPath_def Let_def split_beta)

lemma calls_loadedWorld:
  "\<exists>cs. calls (loadedWorld e option count w) =
      calls w @ CallParseJson (mtimePath e) # CallParseJson (libraryPath e) # CallNewFolderFilter # cs
    \<and> (cs = [] \<or> cs = [CallChangeMax64 count])"
  by (simp add: loadedWorld_def ChangeMax64_def Let_def)

lemma taskCall_exportCall: "taskCall g c \<Longrightarrow> exportCall g c"
  by (cases c) simp_all

lemma Export_run_calls:
  assumes "\<not> Force option" "parseMtime os (mtimePath e) = Inr mtimeMap"
    and "parseLibraryInfo os (libraryPath e) = Inr libraryMetadata"
    and "map_of mtimeMap ''all'' = Some count"
  shows "\<exists>cs. calls (snd (Export os e outputDir option w)) = calls (loadedWorld e option count w) @ cs
     \<and> (\<forall>c \<in> set cs. exportCall (GroupBySmartFolder option) c)
     \<and> submitted cs = filter (\<lambda>k. k \<noteq> ''all'') (map fst mtimeMap)"
proof -
  let ?t = "task os e outputDir option (newFolderFilter os libraryMetadata)"
  let ?w5 = "loadedWorld e option count w"
  from submitAll_calls [of ?t "GroupBySmartFolder option" mtimeMap ?w5, OF task_calls]
  obtain cs where cs: "calls (snd (submitAll ?t mtimeMap ?w5)) = calls ?w5 @ cs"
    "\<forall>c \<in> set cs. taskCall (GroupBySmartFolder option) c \<or> (\<exists>k. c = CallGo k)"
    "submitted cs = filter (\<lambda>k. k \<noteq> ''all'') (map fst mtimeMap)"
    by blast
  have ex: "\<forall>c \<in> set cs. exportCall (GroupBySmartFolder option) c"
    using cs(2) by (auto intro: taskCall_exportCall)
  note run = Export_run [OF assms, of outputDir w]
  show ?thesis
  proof (cases "Bar option")
    case False
    then have "calls (snd (Export os e outputDir option w)) = calls ?w5 @ cs"
      using run cs(1) by simp
    with ex cs(3) show ?thesis by blast
  next
    case True
    then have "calls (snd (Export os e outputDir option w)) = calls ?w5 @ (cs @ [CallFinish])"
      using run cs(1) by (simp add: Finish_def)
    moreover have "\<forall>c \<in> set (cs @ [CallFinish]). exportCall (GroupBySmartFolder option) c"
      using ex by simp
    moreover have "submitted (cs @ [CallFinish]) = filter (\<lambda>k. k \<noteq> ''all'') (map fst mtimeMap)"
      using cs(3) by (simp add: submitted_def List.map_filter_def)
    ultimately show ?thesis by blast
  qed
qed

lemma Export_calls_noforce:
  assumes "\<not> Force option"
  shows "\<exists>cs. calls (snd (Export os e outputDir option w)) = calls w @ cs
     \<and> (\<forall>c \<in> set cs. exportCall (GroupBySmartFolder option) c)"
proof (cases "parseMtime os (mtimePath e)")
  case (Inl err)
  show ?thesis unfolding Export_index_error [OF assms Inl] snd_conv
    by (rule calls_record_only) simp
next
  case m: (Inr mtimeMap)
  show ?thesis
  proof (cases "parseLibraryInfo os (libraryPath e)")
    case (Inl err)
    show ?thesis unfolding Export_library_error [OF assms m Inl] snd_conv
      by (rule calls_after_record [OF calls_record_only]) simp_all
  next
    case l: (Inr libraryMetadata)
    show ?thesis
    proof (cases "map_of mtimeMap ''all''")
      case None
      show ?thesis unfolding Export_no_all [OF assms m l None] snd_conv
        by (rule calls_after_record [OF calls_after_record [OF calls_record_only]]) simp_all
    next
      case (Some count)
      from Export_run_calls [OF assms m l Some, of outputDir w] obtain cs where
        cs: "calls (snd (Export os e outputDir option w)) = calls (loadedWorld e option count w) @ cs"
        "\<forall>c \<in> set cs. exportCall (GroupBySmartFolder option) c"
        by blast
      from calls_loadedWorld [of e option count w] obtain cs0 where
        cs0: "calls (loadedWorld e option count w) =
          calls w @ CallParseJson (mtimePath e) # CallParseJson (libraryPath e) # CallNewFolderFilter # cs0"
        "cs0 = [] \<or> cs0 = [CallChangeMax64 count]"
        by blast
      have "calls (snd (Export os e outputDir option w)) =
          calls w @ (CallParseJson (mtimePath e) # CallParseJson (libraryPath e) # CallNewFolderFilter # cs0 @ cs)"
        using cs(1) cs0(1) by simp
      moreover have "\<forall>c \<in> set (CallParseJson (mtimePath e) # CallParseJson (libraryPath e)
            # CallNewFolderFilter # cs0 @ cs). exportCall (GroupBySmartFolder option) c"
        using cs(2) cs0(2) by auto
      ultimately show ?thesis by blast
    qed
  qed
qed

lemma Export_calls:
  "\<exists>cs. calls (snd (Export os e outputDir option w)) =
        calls w @ (if Force option then [CallRemoveAll outputDir] else []) @ cs
     \<and> (\<forall>c \<in> set cs. exportCall (GroupBySmartFolder option) c)"
proof (cases "Force option")
  case False
  with Export_calls_noforce [OF False, of os e outputDir w] show ?thesis by simp
next
  case True
  show ?thesis
  proof (cases "fault (fs e) (length (calls w)) (CallRemoveAll outputDir)")
    case (Some err)
    have "calls (snd (Export os e outputDir option w)) = calls w @ [CallRemoveAll outputDir] @ []"
      using Export_remove_failed [OF True Some, of os] by simp
    with True show ?thesis by auto
  next
    case None
    have nf: "\<not> Force (option\<lparr>Force := False\<rparr>)" by simp
    from Export_calls_noforce [OF nf, of os e outputDir "snd (RemoveAll (fs e) outputDir w)"]
    obtain cs where
      "calls (snd (Export os e outputDir (option\<lparr>Force := False\<rparr>)
          (snd (RemoveAll (fs e) outputDir w)))) = calls w @ [CallRemoveAll outputDir] @ cs"
      "\<forall>c \<in> set cs. exportCall (GroupBySmartFolder option) c"
      by auto
    with True Export_after_remove [OF True None, of os] show ?thesis by auto
  qed
qed

lemma load_failure_noforce:
  assumes "\<not> Force option"
    and "isl (parseMtime os (mtimePath e)) \<or> isl (parseLibraryInfo os (libraryPath e))
       \<or> (\<exists>mtimeMap. parseMtime os (mtimePath e) = Inr mtimeMap \<and> map_of mtimeMap ''all'' = None)"
  shows "\<exists>err rest. fst (Export os e outputDir option w) = Some err
      \<and> files (snd (Export os e outputDir option w)) = files w
      \<and> calls (snd (Export os e outputDir option w)) = calls w @ CallParseJson (mtimePath e) # rest
      \<and> (\<forall>c \<in> set rest. c = CallParseJson (libraryPath e) \<or> c = CallNewFolderFilter)"
proof (cases "parseMtime os (mtimePath e)")
  case (Inl err)
  show ?thesis unfolding Export_index_error [OF assms(1) Inl] by simp
next
  case m: (Inr mtimeMap)
  show ?thesis
  proof (cases "parseLibraryInfo os (libraryPath e)")
    case (Inl err)
    show ?thesis unfolding Export_library_error [OF assms(1) m Inl] by simp
  next
    case l: (Inr libraryMetadata)
    with m assms(2) have "map_of mtimeMap ''all'' = None" by auto
    from Export_no_all [OF assms(1) m l this] show ?thesis by simp
  qed
qed

lemma submitted_other [simp]:
  "submitted (CallRemoveAll p # cs) = submitted cs"
  "submitted (CallParseJson p # cs) = submitted cs"
  "submitted (CallNewFolderFilter # cs) = submitted cs"
  "submitted (CallChangeMax64 n # cs) = submitted cs"
  "submitted (CallFinish # cs) = submitted cs"
  by (simp_all add: submitted_def List.map_filter_def)


lemma exportCall_no_Evaluate:
  assumes "\<forall>c \<in> set cs. exportCall False c"
  shows "CallEvaluate fileInfo \<notin> set cs"
proof
  assume "CallEvaluate fileInfo \<in> set cs"
  with assms have "exportCall False (CallEvaluate fileInfo)" by blast
  then show False by simp
qed

lemma taskCall_no_Evaluate:
  assumes "\<forall>c \<in> set cs. taskCall False c"
  shows "CallEvaluate fileInfo \<notin> set cs"
proof
  assume "CallEvaluate fileInfo \<in> set cs"
  with assms have "taskCall False (CallEvaluate fileInfo)" by blast
  then show False by simp
qed

subsection \<open>Runs of the small library\<close>

lemma demo_forced_export:
  "fst (Export demoOs (demoLib (calmFs T2)) ''/out'' (plain\<lparr>Force := True\<rparr>)
         (exportedWorld\<lparr>files := (files exportedWorld)(''/out/old.txt'' \<mapsto>
            \<lparr>content = [7], atime = T1, modtime = T1\<rparr>)\<rparr>)) = None
   \<and> files (snd (Export demoOs (demoLib (calmFs T2)) ''/out'' (plain\<lparr>Force := True\<rparr>)
         (exportedWorld\<lparr>files := (files exportedWorld)(''/out/old.txt'' \<mapsto>
            \<lparr>content = [7], atime = T1, modtime = T1\<rparr>)\<rparr>))) ''/out/old.txt'' = None
   \<and> files (snd (Export demoOs (demoLib (calmFs T2)) ''/out'' (plain\<lparr>Force := True\<rparr>)
         (exportedWorld\<lparr>files := (files exportedWorld)(''/out/old.txt'' \<mapsto>
            \<lparr>content = [7], atime = T1, modtime = T1\<rparr>)\<rparr>))) ''/out/x.jpg''
       = Some \<lparr>content = [1, 2, 3], atime = T2, modtime = T1\<rparr>"
  by (simp add: Export_def task_def copyFile_def pool_Wait_def List.map_filter_def Let_def
      op_defs demo_defs path_defs UnixMilli_def)

lemma demo_task_runs:
  "(\<exists>f. files (snd (task demoOs (demoLib (calmFs T2)) ''/out''
          (plain\<lparr>GroupBySmartFolder := True\<rparr>) (\<lambda>fileInfo. Inr ''cats'') ''a1'' 1000 emptyWorld))
        ''/out/cats/x.jpg'' = Some f \<and> content f = [1, 2, 3])
   \<and> (\<exists>f. files (snd (task demoOs (demoLib (calmFs T2)) ''/out''
          (plain\<lparr>GroupBySmartFolder := True\<rparr>) (\<lambda>fileInfo. Inr []) ''a1'' 1000 emptyWorld))
        ''/out/uncategorized/x.jpg'' = Some f \<and> content f = [1, 2, 3])
   \<and> (\<exists>f. files (snd (task demoOs (demoLib (calmFs T2)) ''/out''
          plain (\<lambda>fileInfo. Inl (Cause ''never asked'')) ''a1'' 1000 emptyWorld))
        ''/out/x.jpg'' = Some f \<and> content f = [1, 2, 3])"
  by (simp add: task_def copyFile_def Let_def op_defs demo_defs path_defs UnixMilli_def)

section \<open>The properties of the specification\<close>

subsection \<open>copyFile\<close>

text \<open>
  C1. The specification asks that, when the destination exists, its modification time
  equals the source's and the index value in milliseconds, and Overwrite is off,
  copyFile return success and leave the destination's content and times as they were.

  The code returns success, but it opens the destination with \<^verbatim>\<open>O_TRUNC\<close> before it
  compares anything (line 137), so the destination does not stay as it was. Below, the
  destination \<^verbatim>\<open>/out/x.jpg\<close> holds the bytes 9, 9 and all three times agree. With the
  store's clock at second 2 the call returns success, has replaced the content by the
  source's bytes 1, 2, 3 and has set the access time to the source's; with the clock at
  second 1 (the truncation stamps the very time the source has) the call returns
  success and leaves the destination empty.
\<close>

theorem uptodate_destination_is_rewritten:
  "files exportedWorld ''/out/x.jpg'' = Some \<lparr>content = [9, 9], atime = T1, modtime = T1\<rparr>
   \<and> statSrc demoOs ''/lib/images/a1.info/x.jpg'' = Inr \<lparr>AccessTime = T2, ModTime = T1\<rparr>
   \<and> UnixMilli T1 = 1000
   \<and> Overwrite plain = False
   \<and> fst (copyFile demoOs (demoLib (calmFs T2)) ''/lib/images/a1.info/x.jpg'' ''/out/x.jpg''
            1000 plain exportedWorld) = None
   \<and> files (snd (copyFile demoOs (demoLib (calmFs T2)) ''/lib/images/a1.info/x.jpg''
            ''/out/x.jpg'' 1000 plain exportedWorld)) ''/out/x.jpg''
       = Some \<lparr>content = [1, 2, 3], atime = T2, modtime = T1\<rparr>
   \<and> fst (copyFile demoOs (demoLib (calmFs T1)) ''/lib/images/a1.info/x.jpg'' ''/out/x.jpg''
            1000 plain exportedWorld) = None
   \<and> files (snd (copyFile demoOs (demoLib (calmFs T1)) ''/lib/images/a1.info/x.jpg''
            ''/out/x.jpg'' 1000 plain exportedWorld)) ''/out/x.jpg''
       = Some \<lparr>content = [], atime = T1, modtime = T1\<rparr>"
  by (simp add: copyFile_def op_defs demo_defs UnixMilli_def)

text \<open>Hence the destination after the call is not the destination before it, in either
  run.\<close>

theorem uptodate_destination_is_rewritten_witness:
  "files (snd (copyFile demoOs (demoLib (calmFs T2)) ''/lib/images/a1.info/x.jpg''
            ''/out/x.jpg'' 1000 plain exportedWorld)) ''/out/x.jpg''
     \<noteq> files exportedWorld ''/out/x.jpg''
   \<and> files (snd (copyFile demoOs (demoLib (calmFs T1)) ''/lib/images/a1.info/x.jpg''
            ''/out/x.jpg'' 1000 plain exportedWorld)) ''/out/x.jpg''
     \<noteq> files exportedWorld ''/out/x.jpg''"
  using uptodate_destination_is_rewritten by simp

text \<open>
  C2, as amended. Once the source has been opened and its times read, and the
  destination has been opened and its times read, copyFile performs the byte copy if
  and only if the source's modification time differs from the one read from the opened
  destination, or the index value differs from that time in milliseconds, or Overwrite
  is set. That the destination did not exist before is not a condition of its own.
  In particular the copy is performed whenever Overwrite is set.
\<close>

theorem copy_decision_rule:
  assumes "openSrc os src = Inr bs" and "statSrc os src = Inr srcStat"
    and "fst (OpenFile (fs e) dst [O_RDWR, O_TRUNC, O_CREATE] (beforeOpen e src dst w)) = None"
    and "fst (Stat (fs e) dst
           (snd (OpenFile (fs e) dst [O_RDWR, O_TRUNC, O_CREATE] (beforeOpen e src dst w))))
         = Inr dstStat"
  shows "CallCopy dst \<in> set (newCalls w (snd (copyFile os e src dst fileMtime option w)))
     \<longleftrightarrow> (ModTime srcStat \<noteq> modtime dstStat
          \<or> fileMtime \<noteq> UnixMilli (modtime dstStat)
          \<or> Overwrite option)"
proof -
  obtain w4 where
    op: "OpenFile (fs e) dst [O_RDWR, O_TRUNC, O_CREATE] (beforeOpen e src dst w) = (None, w4)"
    using assms(3)
    by (cases "OpenFile (fs e) dst [O_RDWR, O_TRUNC, O_CREATE] (beforeOpen e src dst w)") simp
  then obtain w5 where stat: "Stat (fs e) dst w4 = (Inr dstStat, w5)"
    using assms(4) by (cases "Stat (fs e) dst w4") simp
  have c5: "calls w5 = calls w @ [CallOpen src, CallStatFile src, CallMkdirAll (Dir dst),
      CallOpenFile dst [O_RDWR, O_TRUNC, O_CREATE], CallStat dst]"
    using OpenFile_callsD [OF op] Stat_sndD [OF stat] by simp
  note dec = copyFile_decision [OF assms(1,2) op stat, of fileMtime option]
  show ?thesis
  proof (cases "needsCopy srcStat dstStat fileMtime option")
    case False
    then have "snd (copyFile os e src dst fileMtime option w) = w5" using dec by simp
    then show ?thesis using False c5 by (simp add: needsCopy_def)
  next
    case True
    obtain r w6 where cp: "io_Copy (fs e) option dst bs w5 = (r, w6)"
      by (cases "io_Copy (fs e) option dst bs w5")
    have "\<exists>cs. calls (snd (copyFile os e src dst fileMtime option w)) = calls w6 @ cs"
      using dec True cp
      by (auto split: option.splits prod.splits dest: Chtimes_callsD)
    then show ?thesis
      using True c5 io_Copy_callsD [OF cp] by (auto simp: needsCopy_def newCalls_def)
  qed
qed

text \<open>The rule at work: a new destination stamped at second 2 is copied; one stamped at
  second 1, the source's own time, is not; with Overwrite it is.\<close>

theorem copy_decision_rule_witness:
  "openSrc demoOs ''/lib/images/a1.info/x.jpg'' = Inr [1, 2, 3]
   \<and> statSrc demoOs ''/lib/images/a1.info/x.jpg'' = Inr \<lparr>AccessTime = T2, ModTime = T1\<rparr>
   \<and> fst (OpenFile (fs (demoLib (calmFs T2))) ''/out/x.jpg'' [O_RDWR, O_TRUNC, O_CREATE]
        (beforeOpen (demoLib (calmFs T2)) ''/lib/images/a1.info/x.jpg'' ''/out/x.jpg'' emptyWorld))
       = None
   \<and> CallCopy ''/out/x.jpg'' \<in> set (newCalls emptyWorld
        (snd (copyFile demoOs (demoLib (calmFs T2)) ''/lib/images/a1.info/x.jpg'' ''/out/x.jpg''
            1000 plain emptyWorld)))
   \<and> CallCopy ''/out/x.jpg'' \<notin> set (newCalls emptyWorld
        (snd (copyFile demoOs (demoLib (calmFs T1)) ''/lib/images/a1.info/x.jpg'' ''/out/x.jpg''
            1000 plain emptyWorld)))
   \<and> CallCopy ''/out/x.jpg'' \<in> set (newCalls emptyWorld
        (snd (copyFile demoOs (demoLib (calmFs T1)) ''/lib/images/a1.info/x.jpg'' ''/out/x.jpg''
            1000 (plain\<lparr>Overwrite := True\<rparr>) emptyWorld)))"
  using copy_decision_rule [of demoOs "''/lib/images/a1.info/x.jpg''" "[1, 2, 3]"
      "\<lparr>AccessTime = T2, ModTime = T1\<rparr>" "demoLib (calmFs T2)" "''/out/x.jpg''" emptyWorld
      "\<lparr>content = [], atime = T2, modtime = T2\<rparr>" 1000 plain]
    copy_decision_rule [of demoOs "''/lib/images/a1.info/x.jpg''" "[1, 2, 3]"
      "\<lparr>AccessTime = T2, ModTime = T1\<rparr>" "demoLib (calmFs T1)" "''/out/x.jpg''" emptyWorld
      "\<lparr>content = [], atime = T1, modtime = T1\<rparr>" 1000 plain]
    copy_decision_rule [of demoOs "''/lib/images/a1.info/x.jpg''" "[1, 2, 3]"
      "\<lparr>AccessTime = T2, ModTime = T1\<rparr>" "demoLib (calmFs T1)" "''/out/x.jpg''" emptyWorld
      "\<lparr>content = [], atime = T1, modtime = T1\<rparr>" 1000 "plain\<lparr>Overwrite := True\<rparr>"]
  by (simp add: MkdirAll_def OpenFile_def Stat_def record_call_def beforeOpen_def
      demo_defs UnixMilli_def)

text \<open>The rule as the specification states it fails both ways. A destination that
  does not exist and is created at the very time the source was modified is not copied:
  an empty file is left and success returned. A destination that exists with all three
  times in agreement is copied all the same, its fresh stamp after the truncation being
  what is compared.\<close>

theorem copy_rule_counterexample:
  "files emptyWorld ''/out/x.jpg'' = None
   \<and> fst (copyFile demoOs (demoLib (calmFs T1)) ''/lib/images/a1.info/x.jpg'' ''/out/x.jpg''
            1000 plain emptyWorld) = None
   \<and> CallCopy ''/out/x.jpg'' \<notin> set (newCalls emptyWorld
        (snd (copyFile demoOs (demoLib (calmFs T1)) ''/lib/images/a1.info/x.jpg'' ''/out/x.jpg''
            1000 plain emptyWorld)))
   \<and> files (snd (copyFile demoOs (demoLib (calmFs T1)) ''/lib/images/a1.info/x.jpg''
            ''/out/x.jpg'' 1000 plain emptyWorld)) ''/out/x.jpg''
       = Some \<lparr>content = [], atime = T1, modtime = T1\<rparr>
   \<and> files exportedWorld ''/out/x.jpg'' = Some \<lparr>content = [9, 9], atime = T1, modtime = T1\<rparr>
   \<and> statSrc demoOs ''/lib/images/a1.info/x.jpg'' = Inr \<lparr>AccessTime = T2, ModTime = T1\<rparr>
   \<and> UnixMilli T1 = 1000
   \<and> Overwrite plain = False
   \<and> CallCopy ''/out/x.jpg'' \<in> set (newCalls exportedWorld
        (snd (copyFile demoOs (demoLib (calmFs T2)) ''/lib/images/a1.info/x.jpg'' ''/out/x.jpg''
            1000 plain exportedWorld)))"
  by (simp add: copyFile_def op_defs demo_defs UnixMilli_def)

text \<open>
  C3. Every call of copyFile that gets as far as reading the destination's times has
  before that opened the destination with \<^verbatim>\<open>O_RDWR|O_TRUNC|O_CREATE\<close>, and the opened
  destination is empty at that point, whatever it held before and whatever Overwrite
  says. So whenever copyFile returns success it has gone through that opening, and the
  destination exists at the end, holding the source's bytes if the copy was performed
  and nothing otherwise.
\<close>

theorem destination_truncated_before_decision:
  "(CallStat dst \<in> set (newCalls w (snd (copyFile os e src dst fileMtime option w))) \<longrightarrow>
      fst (OpenFile (fs e) dst [O_RDWR, O_TRUNC, O_CREATE] (beforeOpen e src dst w)) = None
    \<and> (\<exists>f4. files (snd (OpenFile (fs e) dst [O_RDWR, O_TRUNC, O_CREATE]
                 (beforeOpen e src dst w))) dst = Some f4
           \<and> content f4 = [])
    \<and> (\<exists>post. newCalls w (snd (copyFile os e src dst fileMtime option w)) =
          [CallOpen src, CallStatFile src, CallMkdirAll (Dir dst),
           CallOpenFile dst [O_RDWR, O_TRUNC, O_CREATE], CallStat dst] @ post))
   \<and> (fst (copyFile os e src dst fileMtime option w) = None \<longrightarrow>
      CallStat dst \<in> set (newCalls w (snd (copyFile os e src dst fileMtime option w)))
    \<and> (\<exists>f bs. files (snd (copyFile os e src dst fileMtime option w)) dst = Some f
          \<and> openSrc os src = Inr bs
          \<and> content f =
             (if CallCopy dst \<in> set (newCalls w (snd (copyFile os e src dst fileMtime option w)))
              then bs else [])))"
proof (intro conjI impI)
  let ?o = "OpenFile (fs e) dst [O_RDWR, O_TRUNC, O_CREATE] (beforeOpen e src dst w)"
  assume a: "CallStat dst \<in> set (newCalls w (snd (copyFile os e src dst fileMtime option w)))"
  from copyFile_at_Stat [OF a]
  show "fst ?o = None"
    and "\<exists>post. newCalls w (snd (copyFile os e src dst fileMtime option w)) =
          [CallOpen src, CallStatFile src, CallMkdirAll (Dir dst),
           CallOpenFile dst [O_RDWR, O_TRUNC, O_CREATE], CallStat dst] @ post"
    by blast+
  then have "?o = (None, snd ?o)" by (simp add: prod_eq_iff)
  from OpenFile_create_trunc [OF this]
  show "\<exists>f4. files (snd ?o) dst = Some f4 \<and> content f4 = []" by blast
next
  let ?w' = "snd (copyFile os e src dst fileMtime option w)"
  assume "fst (copyFile os e src dst fileMtime option w) = None"
  then have eq: "copyFile os e src dst fileMtime option w = (None, ?w')"
    by (simp add: prod_eq_iff)
  from copyFile_None_cases [OF eq] obtain bs st f4 where
    *: "openSrc os src = Inr bs" "content f4 = []"
    and **: "if needsCopy st f4 fileMtime option
          then (\<exists>f. files ?w' dst = Some f \<and> content f = bs
                  \<and> atime f = AccessTime st \<and> modtime f = ModTime st)
               \<and> calls ?w' = calls w @ [CallOpen src, CallStatFile src, CallMkdirAll (Dir dst),
                    CallOpenFile dst [O_RDWR, O_TRUNC, O_CREATE], CallStat dst,
                    CallCopy dst, CallChtimes dst (AccessTime st) (ModTime st)]
          else files ?w' dst = Some f4
               \<and> calls ?w' = calls w @ [CallOpen src, CallStatFile src, CallMkdirAll (Dir dst),
                    CallOpenFile dst [O_RDWR, O_TRUNC, O_CREATE], CallStat dst]"
    by blast
  have "CallStat dst \<in> set (newCalls w ?w')
      \<and> (\<exists>f bs. files ?w' dst = Some f \<and> openSrc os src = Inr bs
          \<and> content f = (if CallCopy dst \<in> set (newCalls w ?w') then bs else []))"
  proof (cases "needsCopy st f4 fileMtime option")
    case True
    with ** * show ?thesis by auto
  next
    case False
    with ** * show ?thesis by auto
  qed
  then show "CallStat dst \<in> set (newCalls w ?w')"
    and "\<exists>f bs. files ?w' dst = Some f \<and> openSrc os src = Inr bs
          \<and> content f = (if CallCopy dst \<in> set (newCalls w ?w') then bs else [])"
    by blast+
qed

text \<open>A destination holding the bytes 9, 9 is empty once it is opened; it is still
  empty after a successful call that copied nothing, and holds the source's bytes after
  one that copied.\<close>

theorem destination_truncated_before_decision_witness:
  "fst (copyFile demoOs (demoLib (calmFs T1)) ''/lib/images/a1.info/x.jpg'' ''/out/x.jpg''
          1000 plain exportedWorld) = None
   \<and> files exportedWorld ''/out/x.jpg'' = Some \<lparr>content = [9, 9], atime = T1, modtime = T1\<rparr>
   \<and> CallStat ''/out/x.jpg'' \<in> set (newCalls exportedWorld
        (snd (copyFile demoOs (demoLib (calmFs T1)) ''/lib/images/a1.info/x.jpg'' ''/out/x.jpg''
          1000 plain exportedWorld)))
   \<and> (\<exists>f. files (snd (OpenFile (fs (demoLib (calmFs T1))) ''/out/x.jpg''
          [O_RDWR, O_TRUNC, O_CREATE]
          (beforeOpen (demoLib (calmFs T1)) ''/lib/images/a1.info/x.jpg'' ''/out/x.jpg''
             exportedWorld))) ''/out/x.jpg'' = Some f \<and> content f = [])
   \<and> (\<exists>f. files (snd (copyFile demoOs (demoLib (calmFs T1)) ''/lib/images/a1.info/x.jpg''
          ''/out/x.jpg'' 1000 plain exportedWorld)) ''/out/x.jpg'' = Some f \<and> content f = [])
   \<and> (\<exists>f. files (snd (copyFile demoOs (demoLib (calmFs T2)) ''/lib/images/a1.info/x.jpg''
          ''/out/x.jpg'' 1000 (plain\<lparr>Overwrite := True\<rparr>) exportedWorld)) ''/out/x.jpg'' = Some f
        \<and> content f = [1, 2, 3])"
  using destination_truncated_before_decision [of "''/out/x.jpg''" exportedWorld demoOs
      "demoLib (calmFs T1)" "''/lib/images/a1.info/x.jpg''" 1000 plain]
    destination_truncated_before_decision [of "''/out/x.jpg''" exportedWorld demoOs
      "demoLib (calmFs T2)" "''/lib/images/a1.info/x.jpg''" 1000 "plain\<lparr>Overwrite := True\<rparr>"]
  by (simp add: copyFile_def op_defs demo_defs UnixMilli_def)

text \<open>
  C4. When copyFile has performed the copy and returns success, the destination's
  modification and access times are the ones read from the source file, whatever the
  index value is. When the call that sets the times (the seventh call of copyFile) fails
  with a cause, copyFile returns the error \<^verbatim>\<open>chtimes failed, path: <dst>\<close> around that
  cause.
\<close>

theorem copied_destination_takes_source_times:
  "(fst (copyFile os e src dst fileMtime option w) = None
      \<and> CallCopy dst \<in> set (newCalls w (snd (copyFile os e src dst fileMtime option w)))
     \<longrightarrow> (\<exists>f st. statSrc os src = Inr st
            \<and> files (snd (copyFile os e src dst fileMtime option w)) dst = Some f
            \<and> modtime f = ModTime st \<and> atime f = AccessTime st))
   \<and> (CallChtimes dst a m \<in> set (newCalls w (snd (copyFile os e src dst fileMtime option w)))
      \<and> fault (fs e) (length (calls w) + 6) (CallChtimes dst a m) = Some err
     \<longrightarrow> fst (copyFile os e src dst fileMtime option w)
           = Some (Wrapped (''chtimes failed, path: '' @ dst) err))"
proof (intro conjI impI)
  let ?w' = "snd (copyFile os e src dst fileMtime option w)"
  assume a: "fst (copyFile os e src dst fileMtime option w) = None
      \<and> CallCopy dst \<in> set (newCalls w ?w')"
  then have eq: "copyFile os e src dst fileMtime option w = (None, ?w')"
    by (simp add: prod_eq_iff)
  from copyFile_None_cases [OF eq] obtain bs st f4 where
    st: "statSrc os src = Inr st"
    and c: "if needsCopy st f4 fileMtime option
          then (\<exists>f. files ?w' dst = Some f \<and> content f = bs
                  \<and> atime f = AccessTime st \<and> modtime f = ModTime st)
               \<and> calls ?w' = calls w @ [CallOpen src, CallStatFile src, CallMkdirAll (Dir dst),
                    CallOpenFile dst [O_RDWR, O_TRUNC, O_CREATE], CallStat dst,
                    CallCopy dst, CallChtimes dst (AccessTime st) (ModTime st)]
          else files ?w' dst = Some f4
               \<and> calls ?w' = calls w @ [CallOpen src, CallStatFile src, CallMkdirAll (Dir dst),
                    CallOpenFile dst [O_RDWR, O_TRUNC, O_CREATE], CallStat dst]"
    by blast
  have "needsCopy st f4 fileMtime option"
  proof (rule ccontr)
    assume "\<not> needsCopy st f4 fileMtime option"
    with c have "newCalls w ?w' = [CallOpen src, CallStatFile src, CallMkdirAll (Dir dst),
                    CallOpenFile dst [O_RDWR, O_TRUNC, O_CREATE], CallStat dst]"
      by simp
    with a show False by simp
  qed
  with c st show "\<exists>f st. statSrc os src = Inr st \<and> files ?w' dst = Some f
      \<and> modtime f = ModTime st \<and> atime f = AccessTime st"
    by auto
next
  assume b: "CallChtimes dst a m \<in> set (newCalls w (snd (copyFile os e src dst fileMtime option w)))
      \<and> fault (fs e) (length (calls w) + 6) (CallChtimes dst a m) = Some err"
  then obtain bs where r: "fst (copyFile os e src dst fileMtime option w) =
      errors_Wrap (fst (Chtimes (fs e) dst a m (afterCopy e option src dst bs w)))
        (''chtimes failed, path: '' @ dst)"
    using copyFile_at_Chtimes by blast
  have "length (calls (afterCopy e option src dst bs w)) = length (calls w) + 6"
    by simp
  with b have "fst (Chtimes (fs e) dst a m (afterCopy e option src dst bs w)) = Some err"
    using Chtimes_fault [of "fs e" "afterCopy e option src dst bs w" dst a m err]
    by (simp add: eval_nat_numeral)
  with r show "fst (copyFile os e src dst fileMtime option w)
      = Some (Wrapped (''chtimes failed, path: '' @ dst) err)"
    by simp
qed

text \<open>With the index value 777, which is not the source's time: the destination gets the
  source's times; and on a store that refuses to set times the error carries the store's
  cause.\<close>

theorem copied_destination_takes_source_times_witness:
  "fst (copyFile demoOs (demoLib (calmFs T2)) ''/lib/images/a1.info/x.jpg'' ''/out/x.jpg''
          777 plain emptyWorld) = None
   \<and> CallCopy ''/out/x.jpg'' \<in> set (newCalls emptyWorld
        (snd (copyFile demoOs (demoLib (calmFs T2)) ''/lib/images/a1.info/x.jpg'' ''/out/x.jpg''
          777 plain emptyWorld)))
   \<and> (\<exists>f. files (snd (copyFile demoOs (demoLib (calmFs T2)) ''/lib/images/a1.info/x.jpg''
          ''/out/x.jpg'' 777 plain emptyWorld)) ''/out/x.jpg'' = Some f
        \<and> modtime f = T1 \<and> atime f = T2)
   \<and> fault (faultyFs (CallChtimes ''/out/x.jpg'' T2 T1) (Cause ''operation not permitted'') T2)
        (length (calls emptyWorld) + 6) (CallChtimes ''/out/x.jpg'' T2 T1)
       = Some (Cause ''operation not permitted'')
   \<and> fst (copyFile demoOs
            (demoLib (faultyFs (CallChtimes ''/out/x.jpg'' T2 T1) (Cause ''operation not permitted'') T2))
            ''/lib/images/a1.info/x.jpg'' ''/out/x.jpg'' 777 plain emptyWorld)
       = Some (Wrapped ''chtimes failed, path: /out/x.jpg'' (Cause ''operation not permitted''))"
  using copied_destination_takes_source_times [of demoOs "demoLib (calmFs T2)"
      "''/lib/images/a1.info/x.jpg''" "''/out/x.jpg''" 777 plain emptyWorld]
    copied_destination_takes_source_times [of demoOs
      "demoLib (faultyFs (CallChtimes ''/out/x.jpg'' T2 T1) (Cause ''operation not permitted'') T2)"
      "''/lib/images/a1.info/x.jpg''" "''/out/x.jpg''" 777 plain emptyWorld T2 T1
      "Cause ''operation not permitted''"]
  by (simp add: copyFile_def op_defs demo_defs UnixMilli_def)

subsection \<open>Export and its tasks\<close>



text \<open>
  C6. For a live asset the task hands copyFile the destination
  \<^verbatim>\<open>filepath.Join(outputDir, category, name.ext)\<close> when grouping is on and the filter
  returns a category that is not empty, \<^verbatim>\<open>filepath.Join(outputDir, "uncategorized",
  name.ext)\<close> when it returns the empty one, and \<^verbatim>\<open>filepath.Join(outputDir, name.ext)\<close>
  when grouping is off; and with grouping off \<^verbatim>\<open>Evaluate\<close> is called neither by the task
  nor anywhere in the export.
\<close>

theorem destination_path_of_live_asset:
  assumes "parseFileInfo os (metadataPath e fileInfoName) = Inr fileInfo"
    and "\<not> IsDeleted fileInfo"
  shows "(GroupBySmartFolder option \<and> flt fileInfo = Inr category \<and> category \<noteq> [] \<longrightarrow>
            task os e outputDir option flt fileInfoName mtime w =
              copyFile os e (srcPath e fileInfoName fileInfo)
                (Join [outputDir, category, Name fileInfo @ ''.'' @ Ext fileInfo]) mtime option
                (record_call (CallEvaluate fileInfo)
                   (record_call (CallParseJson (metadataPath e fileInfoName)) w)))
     \<and> (GroupBySmartFolder option \<and> flt fileInfo = Inr [] \<longrightarrow>
            task os e outputDir option flt fileInfoName mtime w =
              copyFile os e (srcPath e fileInfoName fileInfo)
                (Join [outputDir, ''uncategorized'', Name fileInfo @ ''.'' @ Ext fileInfo])
                mtime option
                (record_call (CallEvaluate fileInfo)
                   (record_call (CallParseJson (metadataPath e fileInfoName)) w)))
     \<and> (\<not> GroupBySmartFolder option \<longrightarrow>
            task os e outputDir option flt fileInfoName mtime w =
              copyFile os e (srcPath e fileInfoName fileInfo)
                (Join [outputDir, Name fileInfo @ ''.'' @ Ext fileInfo]) mtime option
                (record_call (CallParseJson (metadataPath e fileInfoName)) w)
          \<and> (\<forall>fi. CallEvaluate fi
                \<notin> set (newCalls w (snd (task os e outputDir option flt fileInfoName mtime w))))
          \<and> (\<forall>fi w0. CallEvaluate fi
                \<notin> set (newCalls w0 (snd (Export os e outputDir option w0)))))"
proof (intro conjI impI allI)
  assume "GroupBySmartFolder option \<and> flt fileInfo = Inr category \<and> category \<noteq> []"
  then show "task os e outputDir option flt fileInfoName mtime w =
      copyFile os e (srcPath e fileInfoName fileInfo)
        (Join [outputDir, category, Name fileInfo @ ''.'' @ Ext fileInfo]) mtime option
        (record_call (CallEvaluate fileInfo)
           (record_call (CallParseJson (metadataPath e fileInfoName)) w))"
    using task_grouped [OF assms, of option flt category outputDir mtime w] by simp
next
  assume "GroupBySmartFolder option \<and> flt fileInfo = Inr []"
  then show "task os e outputDir option flt fileInfoName mtime w =
      copyFile os e (srcPath e fileInfoName fileInfo)
        (Join [outputDir, ''uncategorized'', Name fileInfo @ ''.'' @ Ext fileInfo]) mtime option
        (record_call (CallEvaluate fileInfo)
           (record_call (CallParseJson (metadataPath e fileInfoName)) w))"
    using task_grouped [OF assms, of option flt "[]" outputDir mtime w] by simp
next
  assume "\<not> GroupBySmartFolder option"
  then show "task os e outputDir option flt fileInfoName mtime w =
      copyFile os e (srcPath e fileInfoName fileInfo)
        (Join [outputDir, Name fileInfo @ ''.'' @ Ext fileInfo]) mtime option
        (record_call (CallParseJson (metadataPath e fileInfoName)) w)"
    using task_flat [OF assms, of option outputDir flt mtime w] by simp
next
  fix fi
  assume g: "\<not> GroupBySmartFolder option"
  from task_calls [of os e outputDir option flt fileInfoName mtime w] g obtain cs where
    "calls (snd (task os e outputDir option flt fileInfoName mtime w)) = calls w @ cs"
    "\<forall>c \<in> set cs. taskCall False c"
    by auto
  then show "CallEvaluate fi
      \<notin> set (newCalls w (snd (task os e outputDir option flt fileInfoName mtime w)))"
    using taskCall_no_Evaluate [of cs fi] by simp
next
  fix fi w0
  assume g: "\<not> GroupBySmartFolder option"
  from Export_calls [of os e outputDir option w0] g obtain cs where
    cs: "calls (snd (Export os e outputDir option w0)) =
        calls w0 @ (if Force option then [CallRemoveAll outputDir] else []) @ cs"
    "\<forall>c \<in> set cs. exportCall False c"
    by auto
  have "CallEvaluate fi \<notin> set cs" using exportCall_no_Evaluate [OF cs(2)] .
  then show "CallEvaluate fi \<notin> set (newCalls w0 (snd (Export os e outputDir option w0)))"
    using cs(1) by simp
qed

text \<open>Asset \<^verbatim>\<open>a1\<close> of the small library lands at \<^verbatim>\<open>/out/cats/x.jpg\<close>,
  \<^verbatim>\<open>/out/uncategorized/x.jpg\<close> and \<^verbatim>\<open>/out/x.jpg\<close>; in the last run the filter would
  fail if it were asked.\<close>

theorem destination_path_of_live_asset_witness:
  "parseFileInfo demoOs (metadataPath (demoLib (calmFs T2)) ''a1'')
     = Inr \<lparr>Name = ''x'', Ext = ''jpg'', IsDeleted = False\<rparr>
   \<and> Join [''/out'', ''cats'', ''x'' @ ''.'' @ ''jpg''] = ''/out/cats/x.jpg''
   \<and> Join [''/out'', ''uncategorized'', ''x'' @ ''.'' @ ''jpg''] = ''/out/uncategorized/x.jpg''
   \<and> Join [''/out'', ''x'' @ ''.'' @ ''jpg''] = ''/out/x.jpg''
   \<and> task demoOs (demoLib (calmFs T2)) ''/out'' (plain\<lparr>GroupBySmartFolder := True\<rparr>)
        (\<lambda>fileInfo. Inr ''cats'') ''a1'' 1000 emptyWorld
      = copyFile demoOs (demoLib (calmFs T2)) ''/lib/images/a1.info/x.jpg'' ''/out/cats/x.jpg'' 1000
          (plain\<lparr>GroupBySmartFolder := True\<rparr>)
          (record_call (CallEvaluate \<lparr>Name = ''x'', Ext = ''jpg'', IsDeleted = False\<rparr>)
             (record_call (CallParseJson ''/lib/images/a1.info/metadata.json'') emptyWorld))
   \<and> task demoOs (demoLib (calmFs T2)) ''/out'' (plain\<lparr>GroupBySmartFolder := True\<rparr>)
        (\<lambda>fileInfo. Inr []) ''a1'' 1000 emptyWorld
      = copyFile demoOs (demoLib (calmFs T2)) ''/lib/images/a1.info/x.jpg''
          ''/out/uncategorized/x.jpg'' 1000 (plain\<lparr>GroupBySmartFolder := True\<rparr>)
          (record_call (CallEvaluate \<lparr>Name = ''x'', Ext = ''jpg'', IsDeleted = False\<rparr>)
             (record_call (CallParseJson ''/lib/images/a1.info/metadata.json'') emptyWorld))
   \<and> task demoOs (demoLib (calmFs T2)) ''/out'' plain
        (\<lambda>fileInfo. Inl (Cause ''never asked'')) ''a1'' 1000 emptyWorld
      = copyFile demoOs (demoLib (calmFs T2)) ''/lib/images/a1.info/x.jpg'' ''/out/x.jpg'' 1000
          plain (record_call (CallParseJson ''/lib/images/a1.info/metadata.json'') emptyWorld)
   \<and> (\<exists>f. files (snd (task demoOs (demoLib (calmFs T2)) ''/out''
          (plain\<lparr>GroupBySmartFolder := True\<rparr>) (\<lambda>fileInfo. Inr ''cats'') ''a1'' 1000 emptyWorld))
        ''/out/cats/x.jpg'' = Some f \<and> content f = [1, 2, 3])
   \<and> (\<exists>f. files (snd (task demoOs (demoLib (calmFs T2)) ''/out''
          (plain\<lparr>GroupBySmartFolder := True\<rparr>) (\<lambda>fileInfo. Inr []) ''a1'' 1000 emptyWorld))
        ''/out/uncategorized/x.jpg'' = Some f \<and> content f = [1, 2, 3])
   \<and> (\<exists>f. files (snd (task demoOs (demoLib (calmFs T2)) ''/out''
          plain (\<lambda>fileInfo. Inl (Cause ''never asked'')) ''a1'' 1000 emptyWorld))
        ''/out/x.jpg'' = Some f \<and> content f = [1, 2, 3])"
proof -
  have p: "parseFileInfo demoOs (metadataPath (demoLib (calmFs T2)) ''a1'')
     = Inr \<lparr>Name = ''x'', Ext = ''jpg'', IsDeleted = False\<rparr>"
    by (simp add: demo_defs path_defs)
  have nd: "\<not> IsDeleted \<lparr>Name = ''x'', Ext = ''jpg'', IsDeleted = False\<rparr>" by simp
  have paths: "metadataPath (demoLib (calmFs T2)) ''a1'' = ''/lib/images/a1.info/metadata.json''"
    "srcPath (demoLib (calmFs T2)) ''a1'' \<lparr>Name = ''x'', Ext = ''jpg'', IsDeleted = False\<rparr>
       = ''/lib/images/a1.info/x.jpg''"
    "Join [''/out'', ''cats'', ''x'' @ ''.'' @ ''jpg''] = ''/out/cats/x.jpg''"
    "Join [''/out'', ''uncategorized'', ''x'' @ ''.'' @ ''jpg''] = ''/out/uncategorized/x.jpg''"
    "Join [''/out'', ''x'' @ ''.'' @ ''jpg''] = ''/out/x.jpg''"
    by (simp_all add: demo_defs path_defs)
  from destination_path_of_live_asset [OF p nd, of "plain\<lparr>GroupBySmartFolder := True\<rparr>"
      "\<lambda>fileInfo. Inr ''cats''" "''cats''" "''/out''" 1000 emptyWorld]
    destination_path_of_live_asset [OF p nd, of "plain\<lparr>GroupBySmartFolder := True\<rparr>"
      "\<lambda>fileInfo. Inr []" "[]" "''/out''" 1000 emptyWorld]
    destination_path_of_live_asset [OF p nd, of plain
      "\<lambda>fileInfo. Inl (Cause ''never asked'')" "[]" "''/out''" 1000 emptyWorld]
    p paths demo_task_runs
  show ?thesis by (simp add: plain_def)
qed

text \<open>
  C7. If the index document or the library document cannot be parsed, or the index has
  no entry \<^verbatim>\<open>"all"\<close>, Export returns an error, and all it has called is the forced
  removal (when Force is set), the parsing of the two documents and the making of the
  filter: no task is submitted, nothing is opened or copied, and the files of the
  destination are those the forced removal left, or the initial ones.
\<close>

theorem load_failure_aborts_before_tasks:
  assumes "isl (parseMtime os (mtimePath e)) \<or> isl (parseLibraryInfo os (libraryPath e))
       \<or> (\<exists>mtimeMap. parseMtime os (mtimePath e) = Inr mtimeMap \<and> map_of mtimeMap ''all'' = None)"
  shows "fst (Export os e outputDir option w) \<noteq> None
     \<and> (\<forall>c \<in> set (newCalls w (snd (Export os e outputDir option w))).
           c = CallRemoveAll outputDir \<or> c = CallParseJson (mtimePath e)
         \<or> c = CallParseJson (libraryPath e) \<or> c = CallNewFolderFilter)
     \<and> files (snd (Export os e outputDir option w))
         = files (if Force option then snd (RemoveAll (fs e) outputDir w) else w)"
proof (cases "Force option")
  case False
  from load_failure_noforce [OF False assms, of outputDir w] False show ?thesis
    by auto
next
  case True
  show ?thesis
  proof (cases "fault (fs e) (length (calls w)) (CallRemoveAll outputDir)")
    case (Some err)
    show ?thesis
      unfolding Export_remove_failed [OF True Some] using True Some
      by (simp add: RemoveAll_fault)
  next
    case None
    have nf: "\<not> Force (option\<lparr>Force := False\<rparr>)" by simp
    from load_failure_noforce [OF nf assms, of outputDir "snd (RemoveAll (fs e) outputDir w)"]
    show ?thesis
      unfolding Export_after_remove [OF True None] using True by auto
  qed
qed

text \<open>With an index that cannot be read the export of the small library fails after one
  call and leaves the destination as it was.\<close>

theorem load_failure_aborts_before_tasks_witness:
  "isl (parseMtime brokenOs (mtimePath (demoLib (calmFs T2))))
   \<and> fst (Export brokenOs (demoLib (calmFs T2)) ''/out'' plain exportedWorld)
       = Some (Cause ''unexpected end of JSON input'')
   \<and> newCalls exportedWorld (snd (Export brokenOs (demoLib (calmFs T2)) ''/out'' plain exportedWorld))
       = [CallParseJson ''/lib/mtime.json'']
   \<and> files (snd (Export brokenOs (demoLib (calmFs T2)) ''/out'' plain exportedWorld))
       = files exportedWorld"
proof -
  have p: "isl (parseMtime brokenOs (mtimePath (demoLib (calmFs T2))))"
    by (simp add: demo_defs)
  have "fst (Export brokenOs (demoLib (calmFs T2)) ''/out'' plain exportedWorld)
       = Some (Cause ''unexpected end of JSON input'')
   \<and> newCalls exportedWorld (snd (Export brokenOs (demoLib (calmFs T2)) ''/out'' plain exportedWorld))
       = [CallParseJson ''/lib/mtime.json'']"
    by (simp add: Export_def op_defs demo_defs path_defs)
  with p load_failure_aborts_before_tasks [of brokenOs "demoLib (calmFs T2)" "''/out''" plain
      exportedWorld]
  show ?thesis by (simp add: plain_def)
qed

text \<open>
  C8. If Force is set, the first call of Export is the removal of the output directory,
  and no later call is a removal. If that call fails with a cause, Export returns the
  error \<^verbatim>\<open>delete directory '<outputDir>' failed\<close> around the cause, having called
  nothing else. If it succeeds, nothing is left under the output directory and the
  export goes on from there as an export without Force does.
\<close>

theorem force_removes_output_first:
  assumes "Force option"
  shows "(\<exists>rest. newCalls w (snd (Export os e outputDir option w)) = CallRemoveAll outputDir # rest
            \<and> (\<forall>c \<in> set rest. exportCall (GroupBySmartFolder option) c))
     \<and> (\<forall>err. fault (fs e) (length (calls w)) (CallRemoveAll outputDir) = Some err \<longrightarrow>
          Export os e outputDir option w =
            (Some (Wrapped (''delete directory '' @ [CHR 0x27] @ outputDir @ [CHR 0x27] @ '' failed'')
                    err),
             record_call (CallRemoveAll outputDir) w))
     \<and> (fault (fs e) (length (calls w)) (CallRemoveAll outputDir) = None \<longrightarrow>
          Export os e outputDir option w =
            Export os e outputDir (option\<lparr>Force := False\<rparr>) (snd (RemoveAll (fs e) outputDir w))
          \<and> (\<forall>p. under outputDir p \<longrightarrow> files (snd (RemoveAll (fs e) outputDir w)) p = None))"
proof (intro conjI allI impI)
  from Export_calls [of os e outputDir option w] assms
  show "\<exists>rest. newCalls w (snd (Export os e outputDir option w)) = CallRemoveAll outputDir # rest
            \<and> (\<forall>c \<in> set rest. exportCall (GroupBySmartFolder option) c)"
    by auto
next
  fix err assume "fault (fs e) (length (calls w)) (CallRemoveAll outputDir) = Some err"
  from Export_remove_failed [OF assms this]
  show "Export os e outputDir option w =
            (Some (Wrapped (''delete directory '' @ [CHR 0x27] @ outputDir @ [CHR 0x27] @ '' failed'')
                    err),
             record_call (CallRemoveAll outputDir) w)" .
next
  assume "fault (fs e) (length (calls w)) (CallRemoveAll outputDir) = None"
  from Export_after_remove [OF assms this]
  show "Export os e outputDir option w =
            Export os e outputDir (option\<lparr>Force := False\<rparr>) (snd (RemoveAll (fs e) outputDir w))" .
next
  fix p assume "fault (fs e) (length (calls w)) (CallRemoveAll outputDir) = None" "under outputDir p"
  from RemoveAll_ok(2) [OF this]
  show "files (snd (RemoveAll (fs e) outputDir w)) p = None" .
qed

text \<open>A store that refuses the removal stops the export at once; on a store that allows
  it the stale file \<^verbatim>\<open>/out/old.txt\<close> is gone after the export.\<close>

theorem force_removes_output_first_witness:
  "Force (plain\<lparr>Force := True\<rparr>)
   \<and> Export demoOs
        (demoLib (faultyFs (CallRemoveAll ''/out'') (Cause ''permission denied'') T2))
        ''/out'' (plain\<lparr>Force := True\<rparr>) exportedWorld
       = (Some (Wrapped ''delete directory '/out' failed'' (Cause ''permission denied'')),
          record_call (CallRemoveAll ''/out'') exportedWorld)
   \<and> under ''/out'' ''/out/old.txt''
   \<and> files (snd (RemoveAll (fs (demoLib (calmFs T2))) ''/out''
         (exportedWorld\<lparr>files := (files exportedWorld)(''/out/old.txt'' \<mapsto>
            \<lparr>content = [7], atime = T1, modtime = T1\<rparr>)\<rparr>))) ''/out/old.txt'' = None
   \<and> files (snd (Export demoOs (demoLib (calmFs T2)) ''/out'' (plain\<lparr>Force := True\<rparr>)
         (exportedWorld\<lparr>files := (files exportedWorld)(''/out/old.txt'' \<mapsto>
            \<lparr>content = [7], atime = T1, modtime = T1\<rparr>)\<rparr>))) ''/out/old.txt'' = None"
  using force_removes_output_first [of "plain\<lparr>Force := True\<rparr>" exportedWorld demoOs
      "demoLib (faultyFs (CallRemoveAll ''/out'') (Cause ''permission denied'') T2)" "''/out''"]
    force_removes_output_first [of "plain\<lparr>Force := True\<rparr>"
      "exportedWorld\<lparr>files := (files exportedWorld)(''/out/old.txt'' \<mapsto>
            \<lparr>content = [7], atime = T1, modtime = T1\<rparr>)\<rparr>" demoOs
      "demoLib (calmFs T2)" "''/out''"]
    demo_forced_export
  by (simp add: demo_defs path_defs)



text \<open>
  C10. When Force is set and the removal succeeds, it has happened before the index
  is parsed: if then the index or the library document cannot be parsed, Export returns
  an error with no task submitted, and nothing is left under the output directory.
\<close>

theorem forced_removal_precedes_loading:
  assumes "Force option"
    and "fault (fs e) (length (calls w)) (CallRemoveAll outputDir) = None"
    and "isl (parseMtime os (mtimePath e)) \<or> isl (parseLibraryInfo os (libraryPath e))"
  shows "fst (Export os e outputDir option w) \<noteq> None
     \<and> (\<forall>p. under outputDir p \<longrightarrow> files (snd (Export os e outputDir option w)) p = None)
     \<and> (\<exists>rest. newCalls w (snd (Export os e outputDir option w))
            = CallRemoveAll outputDir # CallParseJson (mtimePath e) # rest
          \<and> (\<forall>c \<in> set rest. c = CallParseJson (libraryPath e) \<or> c = CallNewFolderFilter))"
proof -
  have nf: "\<not> Force (option\<lparr>Force := False\<rparr>)" by simp
  have lf: "isl (parseMtime os (mtimePath e)) \<or> isl (parseLibraryInfo os (libraryPath e))
       \<or> (\<exists>mtimeMap. parseMtime os (mtimePath e) = Inr mtimeMap \<and> map_of mtimeMap ''all'' = None)"
    using assms(3) by blast
  let ?w1 = "snd (RemoveAll (fs e) outputDir w)"
  from load_failure_noforce [OF nf lf, of outputDir ?w1] obtain err rest where
    r: "fst (Export os e outputDir (option\<lparr>Force := False\<rparr>) ?w1) = Some err"
      "files (snd (Export os e outputDir (option\<lparr>Force := False\<rparr>) ?w1)) = files ?w1"
      "calls (snd (Export os e outputDir (option\<lparr>Force := False\<rparr>) ?w1))
         = calls ?w1 @ CallParseJson (mtimePath e) # rest"
      "\<forall>c \<in> set rest. c = CallParseJson (libraryPath e) \<or> c = CallNewFolderFilter"
    by blast
  note eq = Export_after_remove [OF assms(1,2), of os]
  have "fst (Export os e outputDir option w) \<noteq> None" using eq r(1) by simp
  moreover have "\<forall>p. under outputDir p \<longrightarrow> files (snd (Export os e outputDir option w)) p = None"
    using eq r(2) RemoveAll_ok(2) [OF assms(2)] by simp
  moreover have "newCalls w (snd (Export os e outputDir option w))
      = CallRemoveAll outputDir # CallParseJson (mtimePath e) # rest"
    using eq r(3) by simp
  ultimately show ?thesis using r(4) by blast
qed

text \<open>The destination of the earlier export is gone although the export failed on the
  index.\<close>

theorem forced_removal_precedes_loading_witness:
  "Force (plain\<lparr>Force := True\<rparr>)
   \<and> isl (parseMtime brokenOs (mtimePath (demoLib (calmFs T2))))
   \<and> files exportedWorld ''/out/x.jpg'' = Some \<lparr>content = [9, 9], atime = T1, modtime = T1\<rparr>
   \<and> under ''/out'' ''/out/x.jpg''
   \<and> fst (Export brokenOs (demoLib (calmFs T2)) ''/out'' (plain\<lparr>Force := True\<rparr>) exportedWorld)
       = Some (Cause ''unexpected end of JSON input'')
   \<and> files (snd (Export brokenOs (demoLib (calmFs T2)) ''/out'' (plain\<lparr>Force := True\<rparr>)
        exportedWorld)) ''/out/x.jpg'' = None
   \<and> newCalls exportedWorld (snd (Export brokenOs (demoLib (calmFs T2)) ''/out''
        (plain\<lparr>Force := True\<rparr>) exportedWorld))
       = [CallRemoveAll ''/out'', CallParseJson ''/lib/mtime.json'']"
proof -
  have e: "fst (Export brokenOs (demoLib (calmFs T2)) ''/out'' (plain\<lparr>Force := True\<rparr>) exportedWorld)
       = Some (Cause ''unexpected end of JSON input'')
   \<and> newCalls exportedWorld (snd (Export brokenOs (demoLib (calmFs T2)) ''/out''
        (plain\<lparr>Force := True\<rparr>) exportedWorld))
       = [CallRemoveAll ''/out'', CallParseJson ''/lib/mtime.json'']"
    by (simp add: Export_def op_defs demo_defs path_defs)
  have u: "under ''/out'' ''/out/x.jpg''" by (simp add: path_defs)
  from forced_removal_precedes_loading [of "plain\<lparr>Force := True\<rparr>" "demoLib (calmFs T2)"
      exportedWorld "''/out''" brokenOs] e u
  show ?thesis by (simp add: demo_defs)
qed

end
